theory Spec2Isabelle
  imports Complex_Main
begin

section \<open>JavaScript values read by the plugin\<close>

text \<open>
  The plugin (\<^verbatim>\<open>openwebui-plugin/index.js\<close>) reads stream frames after
  \<^verbatim>\<open>JSON.parse\<close>. A parsed frame is a JSON value; reading a missing property
  gives \<^verbatim>\<open>undefined\<close>, which is a value of its own here. Numbers are the
  exact rational values of the doubles (a JSON literal that overflows a double is
  outside the model). An object is the list of its own properties after parsing, so
  its keys are distinct.
\<close>

datatype jsval =
    JUndefined
  | JNull
  | JBool bool
  | JNum rat
  | JStr string
  | JArr "jsval list"
  | JObj "(string \<times> jsval) list"

datatype js_error = TypeError | SyntaxError

text \<open>
  Two conversions of the language depend on the binary floating-point format and are
  taken from the runtime: the decimal rendering of a number
  (\<^verbatim>\<open>Number::toString\<close>) and the reading of a string as a number
  (\<^verbatim>\<open>StringToNumber\<close>, \<open>None\<close> for \<^verbatim>\<open>NaN\<close>).
\<close>

record runtime =
  Number_toString :: "rat \<Rightarrow> string"
  StringToNumber :: "string \<Rightarrow> rat option"

text \<open>
  \<^verbatim>\<open>v.k\<close> for the property names the plugin reads (\<^verbatim>\<open>event\<close>,
  \<^verbatim>\<open>data\<close>, \<^verbatim>\<open>token\<close>, \<^verbatim>\<open>tool\<close>, \<^verbatim>\<open>input\<close>,
  \<^verbatim>\<open>output\<close>, \<^verbatim>\<open>response\<close>, \<^verbatim>\<open>result\<close>, \<^verbatim>\<open>model\<close>,
  \<^verbatim>\<open>provider\<close>, \<^verbatim>\<open>process_time\<close>, \<^verbatim>\<open>error\<close>,
  \<^verbatim>\<open>messages\<close>, \<^verbatim>\<open>length\<close>, \<^verbatim>\<open>role\<close>, \<^verbatim>\<open>content\<close>):
  none of them is inherited from a prototype except \<^verbatim>\<open>length\<close> of strings and
  arrays. Reading a property of \<^verbatim>\<open>undefined\<close> or \<^verbatim>\<open>null\<close> throws a
  \<^verbatim>\<open>TypeError\<close>.
\<close>

fun get_prop :: "jsval \<Rightarrow> string \<Rightarrow> js_error + jsval" where
  "get_prop JUndefined k = Inl TypeError"
| "get_prop JNull k = Inl TypeError"
| "get_prop (JBool b) k = Inr JUndefined"
| "get_prop (JNum r) k = Inr JUndefined"
| "get_prop (JStr s) k = Inr (if k = ''length'' then JNum (of_nat (length s)) else JUndefined)"
| "get_prop (JArr xs) k = Inr (if k = ''length'' then JNum (of_nat (length xs)) else JUndefined)"
| "get_prop (JObj kvs) k = Inr (case map_of kvs k of None \<Rightarrow> JUndefined | Some v \<Rightarrow> v)"

text \<open>Truthiness, as \<^verbatim>\<open>||\<close>, \<^verbatim>\<open>&&\<close> and \<^verbatim>\<open>if\<close> test it.\<close>

fun truthy :: "jsval \<Rightarrow> bool" where
  "truthy JUndefined = False"
| "truthy JNull = False"
| "truthy (JBool b) = b"
| "truthy (JNum r) = (r \<noteq> 0)"
| "truthy (JStr s) = (s \<noteq> [])"
| "truthy (JArr xs) = True"
| "truthy (JObj kvs) = True"

text \<open>
  \<^verbatim>\<open>Array.prototype.join\<close> with the separator \<^verbatim>\<open>","\<close>, on the
  renderings of the elements.
\<close>

fun join_comma :: "string list \<Rightarrow> string" where
  "join_comma [] = []"
| "join_comma [s] = s"
| "join_comma (s # t # ss) = s @ '','' @ join_comma (t # ss)"

fun sequence_err :: "(js_error + 'a) list \<Rightarrow> js_error + 'a list" where
  "sequence_err [] = Inr []"
| "sequence_err (Inl e # rs) = Inl e"
| "sequence_err (Inr x # rs) = (case sequence_err rs of Inl e \<Rightarrow> Inl e | Inr xs \<Rightarrow> Inr (x # xs))"

text \<open>
  The string a template literal \<^verbatim>\<open>`${v}`\<close> inserts for \<open>v\<close>. A parsed object
  has no callable property, so an own \<^verbatim>\<open>toString\<close> key leaves no way to a
  primitive and the conversion throws; otherwise \<^verbatim>\<open>Object.prototype.toString\<close>
  answers. An array joins its elements, \<^verbatim>\<open>undefined\<close> and \<^verbatim>\<open>null\<close>
  as the empty string.
\<close>

fun ToString :: "runtime \<Rightarrow> jsval \<Rightarrow> js_error + string" where
  "ToString rt JUndefined = Inr ''undefined''"
| "ToString rt JNull = Inr ''null''"
| "ToString rt (JBool b) = Inr (if b then ''true'' else ''false'')"
| "ToString rt (JNum r) = Inr (Number_toString rt r)"
| "ToString rt (JStr s) = Inr s"
| "ToString rt (JObj kvs) =
     (if map_of kvs ''toString'' = None then Inr ''[object Object]'' else Inl TypeError)"
| "ToString rt (JArr xs) =
     (case sequence_err
        (map (\<lambda>x. if x = JUndefined \<or> x = JNull then Inr [] else ToString rt x) xs) of
        Inl e \<Rightarrow> Inl e
      | Inr ss \<Rightarrow> Inr (join_comma ss))"

text \<open>\<^verbatim>\<open>v > 0\<close>: the operand is converted to a number first.\<close>

fun js_gt_zero :: "runtime \<Rightarrow> jsval \<Rightarrow> js_error + bool" where
  "js_gt_zero rt JUndefined = Inr False"
| "js_gt_zero rt JNull = Inr False"
| "js_gt_zero rt (JBool b) = Inr b"
| "js_gt_zero rt (JNum r) = Inr (0 < r)"
| "js_gt_zero rt v =
     (case ToString rt v of
        Inl e \<Rightarrow> Inl e
      | Inr s \<Rightarrow> Inr (case StringToNumber rt s of None \<Rightarrow> False | Some r \<Rightarrow> 0 < r))"

subsection \<open>Number.prototype.toFixed\<close>

text \<open>The decimal digits of a natural number, without leading zeroes.\<close>

fun digits :: "nat \<Rightarrow> string" where
  "digits n =
     (if n < 10 then [''0123456789'' ! n]
      else digits (n div 10) @ [''0123456789'' ! (n mod 10)])"

declare digits.simps [simp del]

text \<open>
  \<^verbatim>\<open>x.toFixed(f)\<close> on the exact value \<open>x\<close> of a finite number, as ECMAScript
  defines it: the sign is split off, \<open>n\<close> is the integer nearest to \<open>x * 10^f\<close>
  (the larger one on a tie), its digits are padded with zeroes to \<open>f + 1\<close> places
  and the point goes before the last \<open>f\<close> digits. From \<open>10^21\<close> on the result
  is the runtime's rendering of the number.
\<close>

definition toFixed :: "runtime \<Rightarrow> nat \<Rightarrow> rat \<Rightarrow> string" where
  "toFixed rt f x0 =
     (let s = (if x0 < 0 then ''-'' else '''');
          x = (if x0 < 0 then - x0 else x0)
      in if 10 ^ 21 \<le> x then s @ Number_toString rt x
         else
           let n = nat \<lfloor>x * 10 ^ f + 1 / 2\<rfloor>;
               m0 = digits n;
               m = (if f \<noteq> 0 \<and> length m0 \<le> f then replicate (f + 1 - length m0) CHR ''0'' @ m0 else m0);
               k = length m
           in s @ (if f \<noteq> 0 then take (k - f) m @ ''.'' @ drop (k - f) m else m))"

text \<open>
  \<^verbatim>\<open>v.toFixed(2)\<close> on a parsed value: only a number has the method. Reading
  it from \<^verbatim>\<open>undefined\<close> or \<^verbatim>\<open>null\<close> throws, and so does calling what any
  other parsed value has under that name.
\<close>

fun call_toFixed :: "runtime \<Rightarrow> jsval \<Rightarrow> nat \<Rightarrow> js_error + string" where
  "call_toFixed rt (JNum r) f = Inr (toFixed rt f r)"
| "call_toFixed rt v f = Inl TypeError"

section \<open>The plugin state\<close>

text \<open>
  \<^verbatim>\<open>session.status\<close> holds one of the strings \<^verbatim>\<open>'idle'\<close>,
  \<^verbatim>\<open>'processing'\<close> and \<^verbatim>\<open>'error'\<close>.
\<close>

datatype status = Idle | Processing | Error

text \<open>
  An entry of \<^verbatim>\<open>this.sessions\<close>. The \<^verbatim>\<open>websocket\<close> field is
  \<^verbatim>\<open>null\<close> (\<open>None\<close>) or refers to a socket, by its index in the list of
  sockets created so far.
\<close>

record session =
  sessionId :: string
  websocket :: "nat option"
  status :: status

text \<open>
  A \<^verbatim>\<open>WebSocket\<close> object made by \<^verbatim>\<open>connectWebSocket\<close>: its URL, the
  \<^verbatim>\<open>chatId\<close> and \<^verbatim>\<open>sessionId\<close> its handlers have captured, whether it
  has left the open state (by \<^verbatim>\<open>close()\<close> or by the transport; a socket that is
  not open delivers no message event), and whether its close event has been dispatched.
\<close>

record socket =
  ws_url :: string
  ws_chatId :: string
  ws_sessionId :: string
  ws_closed :: bool
  ws_close_fired :: bool

text \<open>
  What the plugin does to the outside, in the order it does it: a call of the host
  interface \<^verbatim>\<open>webui.<method>({...})\<close> with its argument object, a
  \<^verbatim>\<open>fetch\<close> (URL, method, the value given to \<^verbatim>\<open>JSON.stringify\<close> for
  the body), the construction and the closing of a socket, a \<^verbatim>\<open>setTimeout\<close>
  of a reconnect (delay in milliseconds, \<^verbatim>\<open>chatId\<close>, \<^verbatim>\<open>sessionId\<close>),
  and the console.
\<close>

datatype effect =
    Webui string "(string \<times> jsval) list"
  | Fetch string string "jsval option"
  | WsNew nat string
  | WsClose nat
  | SetTimeout nat string string
  | ConsoleLog string
  | ConsoleError string string

record plugin =
  sessions :: "string \<rightharpoonup> session"
  apiEndpoint :: string
  sockets :: "socket list"
  timers :: "(nat \<times> string \<times> string) list"
  trace :: "effect list"

text \<open>
  How an awaited \<^verbatim>\<open>fetch\<close> ends: it resolves with a response whose
  \<^verbatim>\<open>ok\<close> flag tells a 2xx status, or it rejects (a network error) with an
  error that has a message.
\<close>

datatype fetch_outcome = Resolved bool | Rejected string

text \<open>
  Every handler is modelled as one step: the host delivers callbacks on a single
  cooperative scheduler, and the outcome of each awaited call is an argument of the
  handler. Calls of the host interface are taken to resolve, and the endpoint is taken
  to give a URL the \<^verbatim>\<open>WebSocket\<close> constructor accepts. The two handlers
  that use the registry on both sides of an awaited request,
  \<^verbatim>\<open>handleResearchQuery\<close> and \<^verbatim>\<open>cleanupSession\<close>, are given in
  two phases as well, with the state free to change between them; their one-step form
  is the run of the two phases with nothing in between.
\<close>

definition emit :: "effect \<Rightarrow> plugin \<Rightarrow> plugin" where
  "emit e st = st\<lparr>trace := trace st @ [e]\<rparr>"

text \<open>The constructor: \<^verbatim>\<open>pluginConfig.endpoint || 'http://localhost:8000'\<close>.\<close>

definition new_plugin :: "string option \<Rightarrow> plugin" where
  "new_plugin endpoint =
     \<lparr>sessions = Map.empty,
      apiEndpoint = (case endpoint of None \<Rightarrow> ''http://localhost:8000''
                     | Some e \<Rightarrow> if e = [] then ''http://localhost:8000'' else e),
      sockets = [], timers = [], trace = []\<rparr>"

text \<open>\<^verbatim>\<open>s.replace(pat, rep)\<close> with a string pattern: the first occurrence only.\<close>

fun replace_first :: "string \<Rightarrow> string \<Rightarrow> string \<Rightarrow> string" where
  "replace_first pat rep [] = (if pat = [] then rep else [])"
| "replace_first pat rep (c # cs) =
     (if take (length pat) (c # cs) = pat then rep @ drop (length pat) (c # cs)
      else c # replace_first pat rep cs)"

section \<open>The stream transport\<close>

text \<open>\<^verbatim>\<open>ws.close()\<close>: the socket leaves the open state; closing again changes nothing.\<close>

definition ws_close :: "nat \<Rightarrow> plugin \<Rightarrow> plugin" where
  "ws_close w st =
     emit (WsClose w)
       (if w < length (sockets st)
        then st\<lparr>sockets := (sockets st)[w := (sockets st ! w)\<lparr>ws_closed := True\<rparr>]\<rparr>
        else st)"

definition connectWebSocket :: "string \<Rightarrow> string \<Rightarrow> plugin \<Rightarrow> plugin" where
  "connectWebSocket chatId sid st =
     (case sessions st chatId of
        None \<Rightarrow> st
      | Some session \<Rightarrow>
          let st1 = (case websocket session of None \<Rightarrow> st | Some w \<Rightarrow> ws_close w st);
              wsUrl = replace_first ''http'' ''ws'' (apiEndpoint st1) @ ''/ws/'' @ sid;
              ws = length (sockets st1);
              st2 = emit (WsNew ws wsUrl)
                      (st1\<lparr>sockets := sockets st1 @
                         [\<lparr>ws_url = wsUrl, ws_chatId = chatId, ws_sessionId = sid,
                           ws_closed = False, ws_close_fired = False\<rparr>]\<rparr>)
          in st2\<lparr>sessions := (sessions st2)(chatId \<mapsto> session\<lparr>websocket := Some ws\<rparr>)\<rparr>)"

definition onopen :: "string \<Rightarrow> plugin \<Rightarrow> plugin" where
  "onopen sid st = emit (ConsoleLog (''WebSocket connected for session '' @ sid)) st"

definition onerror :: "string \<Rightarrow> string \<Rightarrow> plugin \<Rightarrow> plugin" where
  "onerror sid err st = emit (ConsoleError (''WebSocket error for session '' @ sid @ '':'') err) st"

definition onclose :: "string \<Rightarrow> string \<Rightarrow> plugin \<Rightarrow> plugin" where
  "onclose chatId sid st =
     (let st1 = emit (ConsoleLog (''WebSocket closed for session '' @ sid)) st
      in if sessions st1 chatId \<noteq> None
         then emit (SetTimeout 5000 chatId sid) (st1\<lparr>timers := timers st1 @ [(5000, chatId, sid)]\<rparr>)
         else st1)"

section \<open>The event dispatcher\<close>

definition case_token :: "string \<Rightarrow> jsval \<Rightarrow> plugin \<Rightarrow> (js_error + unit) \<times> plugin" where
  "case_token chatId eventData st =
     (case get_prop eventData ''token'' of
        Inl e \<Rightarrow> (Inl e, st)
      | Inr token \<Rightarrow>
          (Inr (), emit (Webui ''updateLastMessage''
             [(''chatId'', JStr chatId), (''append'', token), (''done'', JBool False)]) st))"

definition case_research_start :: "string \<Rightarrow> session \<Rightarrow> plugin \<Rightarrow> (js_error + unit) \<times> plugin" where
  "case_research_start chatId session st =
     (let st1 = st\<lparr>sessions := (sessions st)(chatId \<mapsto> session\<lparr>status := Processing\<rparr>)\<rparr>;
          st2 = emit (Webui ''updateChatStatus''
                  [(''chatId'', JStr chatId), (''status'', JStr ''typing'')]) st1
      in (Inr (), emit (Webui ''addAssistantMessage''
            [(''chatId'', JStr chatId), (''content'', JStr ''Researching...''),
             (''metadata'', JObj [(''model'', JStr ''DeepSeek-R1''),
                                  (''provider'', JStr ''Groq/Ollama'')])]) st2))"

definition case_tool_start :: "runtime \<Rightarrow> string \<Rightarrow> jsval \<Rightarrow> plugin \<Rightarrow> (js_error + unit) \<times> plugin" where
  "case_tool_start rt chatId eventData st =
     (case get_prop eventData ''tool'' of
        Inl e \<Rightarrow> (Inl e, st)
      | Inr tool \<Rightarrow>
     (case ToString rt tool of
        Inl e \<Rightarrow> (Inl e, st)
      | Inr tool_s \<Rightarrow>
     (case get_prop eventData ''input'' of
        Inl e \<Rightarrow> (Inl e, st)
      | Inr input \<Rightarrow>
     (case ToString rt input of
        Inl e \<Rightarrow> (Inl e, st)
      | Inr input_s \<Rightarrow>
          (Inr (), emit (Webui ''addThinkingMessage''
             [(''chatId'', JStr chatId),
              (''content'', JStr (''Using tool: '' @ tool_s @ [CHR 0x0A] @ ''Input: '' @ input_s))])
             st)))))"

definition case_tool_end :: "runtime \<Rightarrow> string \<Rightarrow> jsval \<Rightarrow> plugin \<Rightarrow> (js_error + unit) \<times> plugin" where
  "case_tool_end rt chatId eventData st =
     (case get_prop eventData ''output'' of
        Inl e \<Rightarrow> (Inl e, st)
      | Inr output \<Rightarrow>
     (case ToString rt output of
        Inl e \<Rightarrow> (Inl e, st)
      | Inr output_s \<Rightarrow>
          (Inr (), emit (Webui ''addThinkingMessage''
             [(''chatId'', JStr chatId), (''content'', JStr (''Tool result: '' @ output_s))]) st)))"

definition case_research_complete ::
  "runtime \<Rightarrow> string \<Rightarrow> session \<Rightarrow> jsval \<Rightarrow> plugin \<Rightarrow> (js_error + unit) \<times> plugin" where
  "case_research_complete rt chatId session eventData st =
     (let st1 = st\<lparr>sessions := (sessions st)(chatId \<mapsto> session\<lparr>status := Idle\<rparr>)\<rparr>;
          st2 = emit (Webui ''updateChatStatus''
                  [(''chatId'', JStr chatId), (''status'', JStr ''idle'')]) st1
      in
      case get_prop eventData ''response'' of
        Inl e \<Rightarrow> (Inl e, st2)
      | Inr response \<Rightarrow>
     (case get_prop response ''result'' of
        Inl e \<Rightarrow> (Inl e, st2)
      | Inr result \<Rightarrow>
     (case get_prop response ''model'' of
        Inl e \<Rightarrow> (Inl e, st2)
      | Inr model \<Rightarrow>
     (case get_prop response ''provider'' of
        Inl e \<Rightarrow> (Inl e, st2)
      | Inr provider \<Rightarrow>
     (case get_prop response ''process_time'' of
        Inl e \<Rightarrow> (Inl e, st2)
      | Inr process_time \<Rightarrow>
     (case call_toFixed rt process_time 2 of
        Inl e \<Rightarrow> (Inl e, st2)
      | Inr fixed \<Rightarrow>
          (Inr (), emit (Webui ''updateLastMessage''
             [(''chatId'', JStr chatId), (''content'', result), (''done'', JBool True),
              (''metadata'', JObj [(''model'', model), (''provider'', provider),
                                   (''process_time'', JStr (fixed @ ''s''))])]) st2)))))))"

definition case_research_error ::
  "runtime \<Rightarrow> string \<Rightarrow> session \<Rightarrow> jsval \<Rightarrow> plugin \<Rightarrow> (js_error + unit) \<times> plugin" where
  "case_research_error rt chatId session eventData st =
     (let st1 = st\<lparr>sessions := (sessions st)(chatId \<mapsto> session\<lparr>status := Error\<rparr>)\<rparr>;
          st2 = emit (Webui ''updateChatStatus''
                  [(''chatId'', JStr chatId), (''status'', JStr ''idle'')]) st1
      in
      case get_prop eventData ''error'' of
        Inl e \<Rightarrow> (Inl e, st2)
      | Inr err \<Rightarrow>
     (case get_prop err ''error'' of
        Inl e \<Rightarrow> (Inl e, st2)
      | Inr msg \<Rightarrow>
     (case ToString rt msg of
        Inl e \<Rightarrow> (Inl e, st2)
      | Inr msg_s \<Rightarrow>
          (Inr (), emit (Webui ''updateLastMessage''
             [(''chatId'', JStr chatId), (''content'', JStr (''Error: '' @ msg_s)),
              (''done'', JBool True), (''metadata'', JObj [(''error'', JBool True)])]) st2))))"

text \<open>
  \<^verbatim>\<open>for (const message of eventData.messages)\<close>: an array gives its elements, a
  string its characters; a number, a boolean and a parsed object are not iterable.
\<close>

fun js_iterate :: "jsval \<Rightarrow> jsval list option" where
  "js_iterate (JArr xs) = Some xs"
| "js_iterate (JStr s) = Some (map (\<lambda>c. JStr [c]) s)"
| "js_iterate v = None"

fun replay_messages :: "string \<Rightarrow> jsval list \<Rightarrow> plugin \<Rightarrow> (js_error + unit) \<times> plugin" where
  "replay_messages chatId [] st = (Inr (), st)"
| "replay_messages chatId (message # rest) st =
     (case get_prop message ''role'' of
        Inl e \<Rightarrow> (Inl e, st)
      | Inr role \<Rightarrow>
          if role = JStr ''user'' then
            (case get_prop message ''content'' of
               Inl e \<Rightarrow> (Inl e, st)
             | Inr content \<Rightarrow>
                 replay_messages chatId rest
                   (emit (Webui ''addUserMessage''
                      [(''chatId'', JStr chatId), (''content'', content)]) st))
          else if role = JStr ''assistant'' then
            (case get_prop message ''content'' of
               Inl e \<Rightarrow> (Inl e, st)
             | Inr content \<Rightarrow>
                 replay_messages chatId rest
                   (emit (Webui ''addAssistantMessage''
                      [(''chatId'', JStr chatId), (''content'', content), (''done'', JBool True)]) st))
          else replay_messages chatId rest st)"

definition case_session_state :: "runtime \<Rightarrow> string \<Rightarrow> jsval \<Rightarrow> plugin \<Rightarrow> (js_error + unit) \<times> plugin" where
  "case_session_state rt chatId eventData st =
     (case get_prop eventData ''messages'' of
        Inl e \<Rightarrow> (Inl e, st)
      | Inr messages \<Rightarrow>
          if \<not> truthy messages then (Inr (), st)
          else
            (case get_prop messages ''length'' of
               Inl e \<Rightarrow> (Inl e, st)
             | Inr len \<Rightarrow>
            (case js_gt_zero rt len of
               Inl e \<Rightarrow> (Inl e, st)
             | Inr positive \<Rightarrow>
                 if \<not> positive then (Inr (), st)
                 else
                   (case js_iterate messages of
                      None \<Rightarrow> (Inl TypeError, st)
                    | Some items \<Rightarrow> replay_messages chatId items st))))"

text \<open>
  \<^verbatim>\<open>handleWebSocketMessage(chatId, data)\<close>. The result is the state the handler
  leaves and how its promise settles: \<open>Inr ()\<close> when it returns, \<open>Inl e\<close> when
  an exception leaves it. What the handler did before the exception stays done.
\<close>

definition handleWebSocketMessage ::
  "runtime \<Rightarrow> string \<Rightarrow> jsval \<Rightarrow> plugin \<Rightarrow> (js_error + unit) \<times> plugin" where
  "handleWebSocketMessage rt chatId data st =
     (case sessions st chatId of
        None \<Rightarrow> (Inr (), st)
      | Some session \<Rightarrow>
     (case get_prop data ''event'' of
        Inl e \<Rightarrow> (Inl e, st)
      | Inr event \<Rightarrow>
     (case get_prop data ''data'' of
        Inl e \<Rightarrow> (Inl e, st)
      | Inr d \<Rightarrow>
          let eventData = (if truthy d then d else JObj []) in
          if event = JStr ''token'' then case_token chatId eventData st
          else if event = JStr ''research_start'' then case_research_start chatId session st
          else if event = JStr ''tool_start'' then case_tool_start rt chatId eventData st
          else if event = JStr ''tool_end'' then case_tool_end rt chatId eventData st
          else if event = JStr ''research_complete'' then
            case_research_complete rt chatId session eventData st
          else if event = JStr ''research_error'' then
            case_research_error rt chatId session eventData st
          else if event = JStr ''session_state'' then case_session_state rt chatId eventData st
          else (Inr (), st))))"

text \<open>
  \<^verbatim>\<open>ws.onmessage\<close>. The frame is given by what \<^verbatim>\<open>JSON.parse(event.data)\<close>
  makes of it: \<open>None\<close> when the text is not JSON and the parser throws a
  \<^verbatim>\<open>SyntaxError\<close>, which nothing in the handler catches.
\<close>

definition onmessage ::
  "runtime \<Rightarrow> string \<Rightarrow> jsval option \<Rightarrow> plugin \<Rightarrow> (js_error + unit) \<times> plugin" where
  "onmessage rt chatId parsed st =
     (case parsed of
        None \<Rightarrow> (Inl SyntaxError, st)
      | Some data \<Rightarrow> handleWebSocketMessage rt chatId data st)"

section \<open>The query admission gate\<close>

text \<open>
  \<^verbatim>\<open>handleResearchQuery(chatId, message)\<close> as one step, with the outcome
  of its \<^verbatim>\<open>fetch\<close>: the run of the handler when nothing else happens while
  the request is in flight. A response that is not \<^verbatim>\<open>ok\<close> throws inside the
  \<^verbatim>\<open>try\<close> block, so both failures end in the same \<^verbatim>\<open>catch\<close>
  (\<open>query_failed\<close>), with the message of the error caught.
\<close>

definition query_failed :: "string \<Rightarrow> string \<Rightarrow> plugin \<Rightarrow> plugin" where
  "query_failed chatId msg st =
     emit (Webui ''addSystemMessage''
        [(''chatId'', JStr chatId), (''content'', JStr (''Error: '' @ msg))])
       (emit (ConsoleError ''Error submitting research query:'' msg) st)"

definition handleResearchQuery :: "string \<Rightarrow> string \<Rightarrow> fetch_outcome \<Rightarrow> plugin \<Rightarrow> plugin" where
  "handleResearchQuery chatId message outcome st =
     (case sessions st chatId of
        None \<Rightarrow> st
      | Some session \<Rightarrow>
          if status session = Processing then
            emit (Webui ''addSystemMessage''
              [(''chatId'', JStr chatId),
               (''content'', JStr ''Please wait for the current research to complete before submitting a new query.'')])
              st
          else
            let st1 = emit (Webui ''addUserMessage''
                        [(''chatId'', JStr chatId), (''content'', JStr message)]) st;
                st2 = emit (Fetch (apiEndpoint st1 @ ''/api/query'') ''POST''
                        (Some (JObj [(''query'', JStr message),
                                     (''session_id'', JStr (sessionId session))]))) st1
            in (case outcome of
                  Rejected msg \<Rightarrow> query_failed chatId msg st2
                | Resolved ok \<Rightarrow>
                    (if \<not> ok then query_failed chatId ''Failed to submit research query'' st2
                     else st2\<lparr>sessions :=
                            (sessions st2)(chatId \<mapsto> session\<lparr>status := Processing\<rparr>)\<rparr>)))"

text \<open>
  The same handler in the two phases its \<^verbatim>\<open>await fetch\<close> divides it into;
  other handlers run between them. The first phase is everything up to the request: the
  lookup, the check of the status, the echo of the message and the
  \<^verbatim>\<open>fetch\<close>; it tells whether a request is now in flight. (The handler also
  awaits the host's \<^verbatim>\<open>addUserMessage\<close> before the request; it reads nothing
  of the plugin after that point but what it has captured.) The second phase is what
  the handler does when the request settles, in the state the plugin is in by then: the
  write of the status, or the \<^verbatim>\<open>catch\<close>. The write goes to the session object
  the handler looked up in the first phase. That object is the one the registry holds
  for the chat for as long as the chat is registered, since the host gives an
  identifier to one chat only; when the chat has been deleted in between, the write
  changes an object that the registry no longer holds.
\<close>

definition query_begin :: "string \<Rightarrow> string \<Rightarrow> plugin \<Rightarrow> bool \<times> plugin" where
  "query_begin chatId message st =
     (case sessions st chatId of
        None \<Rightarrow> (False, st)
      | Some session \<Rightarrow>
          if status session = Processing then
            (False,
             emit (Webui ''addSystemMessage''
               [(''chatId'', JStr chatId),
                (''content'', JStr ''Please wait for the current research to complete before submitting a new query.'')])
               st)
          else
            let st1 = emit (Webui ''addUserMessage''
                        [(''chatId'', JStr chatId), (''content'', JStr message)]) st
            in (True,
                emit (Fetch (apiEndpoint st1 @ ''/api/query'') ''POST''
                        (Some (JObj [(''query'', JStr message),
                                     (''session_id'', JStr (sessionId session))]))) st1))"

definition query_settle :: "string \<Rightarrow> fetch_outcome \<Rightarrow> plugin \<Rightarrow> plugin" where
  "query_settle chatId outcome st =
     (case outcome of
        Rejected msg \<Rightarrow> query_failed chatId msg st
      | Resolved ok \<Rightarrow>
          (if \<not> ok then query_failed chatId ''Failed to submit research query'' st
           else
             (case sessions st chatId of
                None \<Rightarrow> st
              | Some session \<Rightarrow>
                  st\<lparr>sessions :=
                       (sessions st)(chatId \<mapsto> session\<lparr>status := Processing\<rparr>)\<rparr>)))"

section \<open>The session lifecycle\<close>

text \<open>
  \<^verbatim>\<open>createResearchChat()\<close>, with the time \<^verbatim>\<open>Date.now()\<close> returns, the
  \<^verbatim>\<open>chatId\<close> the host returns from \<^verbatim>\<open>webui.createChat\<close> and the outcome
  of the provisioning \<^verbatim>\<open>fetch\<close>. The response is not inspected: only a rejected
  \<^verbatim>\<open>fetch\<close> reaches the \<^verbatim>\<open>catch\<close>.
\<close>

definition welcome_text :: string where
  "welcome_text =
     ''Welcome to the Deep Research Assistant! Ask me any research question, and I'' @ [CHR 0x27] @
     ''ll provide a comprehensive answer using Groq'' @ [CHR 0x27] @
     ''s DeepSeek-R1 model and Perplexica search.''"

definition createResearchChat :: "nat \<Rightarrow> string \<Rightarrow> fetch_outcome \<Rightarrow> plugin \<Rightarrow> string \<times> plugin" where
  "createResearchChat now chatId outcome st =
     (let sid = ''research-'' @ digits now;
          st1 = emit (Webui ''createChat''
                  [(''title'', JStr ''Research Session''), (''type'', JStr ''research''),
                   (''metadata'', JObj [(''sessionId'', JStr sid)])]) st;
          st2 = emit (Fetch (apiEndpoint st1 @ ''/api/sessions'') ''POST''
                  (Some (JObj [(''session_id'', JStr sid)]))) st1
      in case outcome of
           Resolved ok \<Rightarrow>
             let st3 = st2\<lparr>sessions := (sessions st2)(chatId \<mapsto>
                         \<lparr>sessionId = sid, websocket = None, status = Idle\<rparr>)\<rparr>;
                 st4 = connectWebSocket chatId sid st3
             in (chatId, emit (Webui ''addSystemMessage''
                   [(''chatId'', JStr chatId), (''content'', JStr welcome_text)]) st4)
         | Rejected msg \<Rightarrow>
             (chatId, emit (Webui ''addSystemMessage''
                [(''chatId'', JStr chatId),
                 (''content'', JStr ''Error: Failed to initialize research session. Please try again.'')])
                (emit (ConsoleError ''Failed to create research session:'' msg) st2)))"

text \<open>
  \<^verbatim>\<open>cleanupSession(chatId)\<close> as one step, with the outcome of the
  \<^verbatim>\<open>DELETE\<close> request: the run of the handler when nothing else happens while
  the request is in flight.
\<close>

definition cleanupSession :: "string \<Rightarrow> fetch_outcome \<Rightarrow> plugin \<Rightarrow> plugin" where
  "cleanupSession chatId outcome st =
     (case sessions st chatId of
        None \<Rightarrow> st
      | Some session \<Rightarrow>
          let st1 = (case websocket session of None \<Rightarrow> st | Some w \<Rightarrow> ws_close w st);
              st2 = emit (Fetch (apiEndpoint st1 @ ''/api/sessions/'' @ sessionId session)
                      ''DELETE'' None) st1;
              st3 = (case outcome of
                       Rejected msg \<Rightarrow> emit (ConsoleError ''Error deleting session:'' msg) st2
                     | Resolved ok \<Rightarrow> st2)
          in st3\<lparr>sessions := (sessions st3)(chatId := None)\<rparr>)"

text \<open>
  The same handler in the two phases its \<^verbatim>\<open>await fetch\<close> divides it into.
  The first phase closes the socket and sends the request; it tells whether a request
  is now in flight. The second phase runs when the request has settled, in the state
  the plugin is in by then: it logs a rejected request and deletes the registry entry
  of the chat. Between the two the chat is still registered, and the close event of
  the socket just closed can be handled.
\<close>

definition cleanup_begin :: "string \<Rightarrow> plugin \<Rightarrow> bool \<times> plugin" where
  "cleanup_begin chatId st =
     (case sessions st chatId of
        None \<Rightarrow> (False, st)
      | Some session \<Rightarrow>
          let st1 = (case websocket session of None \<Rightarrow> st | Some w \<Rightarrow> ws_close w st)
          in (True,
              emit (Fetch (apiEndpoint st1 @ ''/api/sessions/'' @ sessionId session)
                      ''DELETE'' None) st1))"

definition cleanup_settle :: "string \<Rightarrow> fetch_outcome \<Rightarrow> plugin \<Rightarrow> plugin" where
  "cleanup_settle chatId outcome st =
     (let st1 = (case outcome of
                   Rejected msg \<Rightarrow> emit (ConsoleError ''Error deleting session:'' msg) st
                 | Resolved ok \<Rightarrow> st)
      in st1\<lparr>sessions := (sessions st1)(chatId := None)\<rparr>)"

text \<open>
  The two handlers \<^verbatim>\<open>registerAPIHandlers\<close> installs. The first returns whether
  it called \<^verbatim>\<open>event.preventDefault()\<close>, that is, whether the plugin took the
  message away from the host's default handling.
\<close>

definition on_message_send :: "string \<Rightarrow> string \<Rightarrow> fetch_outcome \<Rightarrow> plugin \<Rightarrow> bool \<times> plugin" where
  "on_message_send chatId message outcome st =
     (if sessions st chatId \<noteq> None
      then (True, handleResearchQuery chatId message outcome st)
      else (False, st))"

definition on_chat_delete :: "string \<Rightarrow> fetch_outcome \<Rightarrow> plugin \<Rightarrow> plugin" where
  "on_chat_delete chatId outcome st =
     (if sessions st chatId \<noteq> None then cleanupSession chatId outcome st else st)"

section \<open>The host's event loop\<close>

text \<open>
  What can happen to a running plugin: the user opens a research chat, sends a message
  or deletes a chat; a socket opens, delivers a frame, reports an error or closes; a
  reconnect timer fires.
\<close>

datatype event =
    CreateChat nat string fetch_outcome
  | MessageSend string string fetch_outcome
  | ChatDelete string fetch_outcome
  | WsOpened nat
  | WsMessage nat "jsval option"
  | WsErrored nat string
  | WsClosed nat
  | TimerFired nat

text \<open>
  One turn of the event loop. A socket dispatches a message event only while it is open,
  and its close event once. \<^verbatim>\<open>ws.onmessage\<close> is an \<^verbatim>\<open>async\<close> function:
  an exception inside it rejects the promise it returns, which the caller does not look
  at, and the socket stays as it is.
\<close>

definition step :: "runtime \<Rightarrow> event \<Rightarrow> plugin \<Rightarrow> plugin" where
  "step rt ev st =
     (case ev of
        CreateChat now chatId outcome \<Rightarrow> snd (createResearchChat now chatId outcome st)
      | MessageSend chatId message outcome \<Rightarrow> snd (on_message_send chatId message outcome st)
      | ChatDelete chatId outcome \<Rightarrow> on_chat_delete chatId outcome st
      | WsOpened w \<Rightarrow>
          if w < length (sockets st) then onopen (ws_sessionId (sockets st ! w)) st else st
      | WsMessage w parsed \<Rightarrow>
          if w < length (sockets st) \<and> \<not> ws_closed (sockets st ! w)
          then snd (onmessage rt (ws_chatId (sockets st ! w)) parsed st)
          else st
      | WsErrored w err \<Rightarrow>
          if w < length (sockets st) then onerror (ws_sessionId (sockets st ! w)) err st else st
      | WsClosed w \<Rightarrow>
          if w < length (sockets st) \<and> \<not> ws_close_fired (sockets st ! w)
          then onclose (ws_chatId (sockets st ! w)) (ws_sessionId (sockets st ! w))
                 (st\<lparr>sockets := (sockets st)
                    [w := (sockets st ! w)\<lparr>ws_closed := True, ws_close_fired := True\<rparr>]\<rparr>)
          else st
      | TimerFired i \<Rightarrow>
          if i < length (timers st)
          then (case timers st ! i of
                  (ms, chatId, sid) \<Rightarrow>
                    connectWebSocket chatId sid
                      (st\<lparr>timers := take i (timers st) @ drop (Suc i) (timers st)\<rparr>))
          else st)"

definition run :: "runtime \<Rightarrow> event list \<Rightarrow> plugin \<Rightarrow> plugin" where
  "run rt evs st = foldl (\<lambda>s ev. step rt ev s) st evs"

text \<open>
  The host gives every new chat an identifier of its own: a chat is created under an
  identifier the registry does not hold.
\<close>

definition admissible :: "event \<Rightarrow> plugin \<Rightarrow> bool" where
  "admissible ev st =
     (case ev of CreateChat now chatId outcome \<Rightarrow> sessions st chatId = None | _ \<Rightarrow> True)"

fun admissible_run :: "runtime \<Rightarrow> event list \<Rightarrow> plugin \<Rightarrow> bool" where
  "admissible_run rt [] st = True"
| "admissible_run rt (ev # evs) st = (admissible ev st \<and> admissible_run rt evs (step rt ev st))"

text \<open>The open sockets whose handlers deliver to a chat.\<close>

definition live_listeners :: "plugin \<Rightarrow> string \<Rightarrow> nat list" where
  "live_listeners st chatId =
     filter (\<lambda>w. \<not> ws_closed (sockets st ! w) \<and> ws_chatId (sockets st ! w) = chatId)
       [0 ..< length (sockets st)]"

text \<open>The effects a handler added to the trace, oldest first.\<close>

definition new_effects :: "plugin \<Rightarrow> plugin \<Rightarrow> effect list" where
  "new_effects st st' = drop (length (trace st)) (trace st')"

section \<open>Example states\<close>

text \<open>
  A runtime for the examples: it renders a number by the digits of its integer part
  and reads no string as a number. No example below consults either.
\<close>

definition plain_runtime :: runtime where
  "plain_runtime =
     \<lparr>Number_toString = (\<lambda>r. digits (nat \<lfloor>r\<rfloor>)), StringToNumber = (\<lambda>s. None)\<rparr>"

text \<open>
  A plugin with the default endpoint in which one research chat \<^verbatim>\<open>c1\<close> has been
  created; the same after a query has been admitted; and the same after the backend
  has then reported an error.
\<close>

definition idle_state :: plugin where
  "idle_state = snd (createResearchChat 42 ''c1'' (Resolved True) (new_plugin None))"

definition busy_state :: plugin where
  "busy_state = handleResearchQuery ''c1'' ''What is HOL?'' (Resolved True) idle_state"

definition error_frame :: jsval where
  "error_frame =
     JObj [(''event'', JStr ''research_error''),
           (''data'', JObj [(''error'', JObj [(''error'', JStr ''backend down'')])])]"

definition errored_state :: plugin where
  "errored_state = snd (handleWebSocketMessage plain_runtime ''c1'' error_frame busy_state)"

text \<open>
  The frame of a completed research: the answer, the model, the provider and a process
  time of 1.234 seconds.
\<close>

definition complete_frame :: jsval where
  "complete_frame =
     JObj [(''event'', JStr ''research_complete''),
           (''data'', JObj [(''response'',
              JObj [(''result'', JStr ''Answer.''), (''model'', JStr ''m''),
                    (''provider'', JStr ''p''), (''process_time'', JNum (1234 / 1000))])])]"

section \<open>Status transitions and the registry invariant\<close>

text \<open>
  The status the dispatcher leaves in a registered session, by the event tag of the
  frame: the three assignments to \<^verbatim>\<open>session.status\<close> in
  \<^verbatim>\<open>handleWebSocketMessage\<close>, which stand before anything that can throw.
\<close>

definition status_after :: "jsval \<Rightarrow> status \<Rightarrow> status" where
  "status_after data old =
     (case get_prop data ''event'' of
        Inl e \<Rightarrow> old
      | Inr event \<Rightarrow>
          if event = JStr ''research_start'' then Processing
          else if event = JStr ''research_complete'' then Idle
          else if event = JStr ''research_error'' then Error
          else old)"

text \<open>
  The two kinds of step that change a status: a query of the chat whose request was
  answered 2xx, and a frame with a given event tag delivered by an open socket of the
  chat.
\<close>

definition query_admitted :: "event \<Rightarrow> string \<Rightarrow> bool" where
  "query_admitted ev chatId =
     (case ev of
        MessageSend c message outcome \<Rightarrow> c = chatId \<and> outcome = Resolved True
      | _ \<Rightarrow> False)"

definition stream_event :: "event \<Rightarrow> plugin \<Rightarrow> string \<Rightarrow> string \<Rightarrow> bool" where
  "stream_event ev st chatId kind =
     (case ev of
        WsMessage w parsed \<Rightarrow>
          (case parsed of
             None \<Rightarrow> False
           | Some data \<Rightarrow>
               w < length (sockets st) \<and> \<not> ws_closed (sockets st ! w)
               \<and> ws_chatId (sockets st ! w) = chatId
               \<and> get_prop data ''event'' = Inr (JStr kind))
      | _ \<Rightarrow> False)"

text \<open>
  The invariant of the registry and the sockets: every registered session refers to a
  socket that exists, and every open socket is the one its chat's session refers to.
\<close>

definition registry_inv :: "plugin \<Rightarrow> bool" where
  "registry_inv st \<longleftrightarrow>
     (\<forall>c s. sessions st c = Some s \<longrightarrow> (\<exists>w. websocket s = Some w \<and> w < length (sockets st)))
     \<and> (\<forall>w < length (sockets st). \<not> ws_closed (sockets st ! w) \<longrightarrow>
           (\<exists>s. sessions st (ws_chatId (sockets st ! w)) = Some s \<and> websocket s = Some w))"

text \<open>
  What a connect needs: the invariant, except that the session being connected may
  still have no socket (as it has right after its creation).
\<close>

definition connect_pre :: "string \<Rightarrow> plugin \<Rightarrow> bool" where
  "connect_pre chatId st \<longleftrightarrow>
     (\<forall>c s. c \<noteq> chatId \<longrightarrow> sessions st c = Some s \<longrightarrow>
        (\<exists>w. websocket s = Some w \<and> w < length (sockets st)))
     \<and> (\<forall>w < length (sockets st). \<not> ws_closed (sockets st ! w) \<longrightarrow>
           (\<exists>s. sessions st (ws_chatId (sockets st ! w)) = Some s \<and> websocket s = Some w))"

section \<open>Evaluation lemmas\<close>

lemma digits_small: "n < 10 \<Longrightarrow> digits n = [''0123456789'' ! n]"
  by (simp add: digits.simps)

lemma digits_large:
  "\<not> n < 10 \<Longrightarrow> digits n = digits (n div 10) @ [''0123456789'' ! (n mod 10)]"
  by (subst digits.simps) simp

lemmas fixture_defs =
  createResearchChat_def new_plugin_def connectWebSocket_def emit_def Let_def
  digits_small digits_large welcome_text_def

lemma idle_state_sessions:
  "sessions idle_state =
     [''c1'' \<mapsto> \<lparr>sessionId = ''research-42'', websocket = Some 0, status = Idle\<rparr>]"
  by (simp add: idle_state_def fixture_defs)

lemma idle_state_sockets:
  "sockets idle_state =
     [\<lparr>ws_url = ''ws://localhost:8000/ws/research-42'', ws_chatId = ''c1'',
       ws_sessionId = ''research-42'', ws_closed = False, ws_close_fired = False\<rparr>]"
  by (simp add: idle_state_def fixture_defs)

lemma busy_state_sessions:
  "sessions busy_state =
     [''c1'' \<mapsto> \<lparr>sessionId = ''research-42'', websocket = Some 0, status = Processing\<rparr>]"
  by (simp add: busy_state_def handleResearchQuery_def idle_state_sessions emit_def Let_def)

lemma errored_state_sessions:
  "sessions errored_state =
     [''c1'' \<mapsto> \<lparr>sessionId = ''research-42'', websocket = Some 0, status = Error\<rparr>]"
  by (simp add: errored_state_def error_frame_def handleWebSocketMessage_def
      case_research_error_def busy_state_sessions emit_def Let_def)

lemma new_effects_append [simp]: "new_effects st (st\<lparr>trace := trace st @ es\<rparr>) = es"
  by (simp add: new_effects_def)

lemma idle_state_timers: "timers idle_state = []"
  by (simp add: idle_state_def fixture_defs)

lemma idle_state_endpoint: "apiEndpoint idle_state = ''http://localhost:8000''"
  by (simp add: idle_state_def fixture_defs)

lemma floor_rat_numeral_div [simp]:
  "\<lfloor>numeral a / numeral b :: rat\<rfloor> = numeral a div numeral b"
  by (metis floor_divide_of_int_eq of_int_numeral)

section \<open>Two decimal places\<close>

lemma digits_nonempty: "digits n \<noteq> []"
  by (subst digits.simps) simp

lemma digits_two:
  assumes "100 \<le> n"
  shows "digits n =
           digits (n div 100) @ [''0123456789'' ! (n div 10 mod 10), ''0123456789'' ! (n mod 10)]"
proof -
  have "\<not> n div 10 < 10" "\<not> n < 10"
    using assms by simp_all
  moreover have "n div 10 div 10 = n div 100"
    by (simp add: div_mult2_eq [symmetric])
  ultimately show ?thesis
    by (simp add: digits_large [of n] digits_large [of "n div 10"])
qed

text \<open>
  Below \<open>10^21\<close> in magnitude, \<^verbatim>\<open>toFixed(2)\<close> is the sign, the integer part
  of the number rounded to the nearest hundredth (half up in magnitude), the point and
  exactly two digits.
\<close>

lemma toFixed_two_places:
  assumes "\<bar>t\<bar> < 10 ^ 21"
  shows "toFixed rt 2 t =
           (let n = nat \<lfloor>\<bar>t\<bar> * 100 + 1 / 2\<rfloor>
            in (if t < 0 then ''-'' else []) @ digits (n div 100) @ ''.'' @
               [''0123456789'' ! (n div 10 mod 10), ''0123456789'' ! (n mod 10)])"
proof -
  define n where "n = nat \<lfloor>\<bar>t\<bar> * 100 + 1 / 2\<rfloor>"
  have abs_eq: "(if t < 0 then - t else t) = \<bar>t\<bar>" by simp
  have fixed: "toFixed rt 2 t =
      (if t < 0 then ''-'' else []) @
      (let m0 = digits n;
           m = (if length m0 \<le> 2 then replicate (3 - length m0) CHR ''0'' @ m0 else m0)
       in take (length m - 2) m @ ''.'' @ drop (length m - 2) m)"
    using assms unfolding toFixed_def abs_eq Let_def n_def by simp
  have "(let m0 = digits n;
           m = (if length m0 \<le> 2 then replicate (3 - length m0) CHR ''0'' @ m0 else m0)
       in take (length m - 2) m @ ''.'' @ drop (length m - 2) m) =
      digits (n div 100) @ ''.'' @
        [''0123456789'' ! (n div 10 mod 10), ''0123456789'' ! (n mod 10)]"
  proof (cases "n < 100")
    case True
    show ?thesis
    proof (cases "n < 10")
      case True
      then show ?thesis by (simp add: digits_small Let_def)
    next
      case False
      then have "digits n = [''0123456789'' ! (n div 10), ''0123456789'' ! (n mod 10)]"
        using True by (simp add: digits_large digits_small)
      then show ?thesis using True by (simp add: digits_small Let_def numeral_3_eq_3)
    qed
  next
    case False
    then have two: "digits n =
        digits (n div 100) @ [''0123456789'' ! (n div 10 mod 10), ''0123456789'' ! (n mod 10)]"
      by (simp add: digits_two)
    have "digits (n div 100) \<noteq> []" by (simp add: digits_nonempty)
    then have "\<not> length (digits n) \<le> 2"
      by (simp add: two)
    then show ?thesis by (simp add: two Let_def)
  qed
  then show ?thesis
    unfolding fixed n_def Let_def by simp
qed

text \<open>
  The double nearest to the literal \<^verbatim>\<open>1.234\<close> is
  \<open>5557441940175192 / 2^52\<close>, a little below it; both render as \<^verbatim>\<open>1.23\<close>.
\<close>

lemma nearest_double_1234:
  "\<bar>5557441940175192 / 2 ^ 52 - 1234 / (1000::rat)\<bar> \<le> 1 / 2 ^ 53"
  by simp

lemma toFixed_1234:
  "toFixed rt 2 (1234 / 1000) = ''1.23'' \<and> toFixed rt 2 (5557441940175192 / 2 ^ 52) = ''1.23''"
  by (simp add: toFixed_def Let_def digits_small digits_large)

text \<open>
  The payload of an event is \<^verbatim>\<open>data.data || {}\<close>: a property that was there
  is still there.
\<close>

lemma falsy_has_no_payload:
  assumes "\<not> truthy d" and "get_prop d k = Inr v" and "k \<noteq> ''length''"
  shows "v = JUndefined"
  using assms by (cases d) (auto split: if_splits)

lemma eventData_prop:
  assumes "get_prop d k = Inr v" and "v \<noteq> JUndefined" and "k \<noteq> ''length''"
  shows "get_prop (if truthy d then d else JObj []) k = Inr v"
  using assms falsy_has_no_payload by auto

section \<open>Admission while a query is in flight\<close>

text \<open>
  Claim C3. While the session's status is \<^verbatim>\<open>'processing'\<close>, a submitted query
  is taken by the plugin (the default handling is prevented) and rejected: the only
  thing the handler does is to add the system message asking the user to wait. No HTTP
  request is issued, and the registry, the sockets and the timers stay as they were.
\<close>

theorem busy_query_rejected:
  assumes "sessions st chatId = Some session" and "status session = Processing"
  shows "handleResearchQuery chatId message outcome st =
           st\<lparr>trace := trace st @ [Webui ''addSystemMessage''
              [(''chatId'', JStr chatId),
               (''content'', JStr ''Please wait for the current research to complete before submitting a new query.'')]]\<rparr>
         \<and> on_message_send chatId message outcome st =
             (True, handleResearchQuery chatId message outcome st)"
  using assms by (simp add: handleResearchQuery_def on_message_send_def emit_def)

theorem busy_query_rejected_witness:
  "sessions busy_state ''c1'' =
     Some \<lparr>sessionId = ''research-42'', websocket = Some 0, status = Processing\<rparr>
   \<and> status \<lparr>sessionId = ''research-42'', websocket = Some 0, status = Processing\<rparr> = Processing
   \<and> new_effects busy_state
        (handleResearchQuery ''c1'' ''Another question'' (Resolved True) busy_state) =
       [Webui ''addSystemMessage''
          [(''chatId'', JStr ''c1''),
           (''content'', JStr ''Please wait for the current research to complete before submitting a new query.'')]]
   \<and> sessions (handleResearchQuery ''c1'' ''Another question'' (Resolved True) busy_state) =
       sessions busy_state"
  using busy_query_rejected [of busy_state "''c1''"
      "\<lparr>sessionId = ''research-42'', websocket = Some 0, status = Processing\<rparr>"
      "''Another question''" "Resolved True"]
  by (simp add: busy_state_sessions)

section \<open>Admission of a query\<close>

text \<open>
  The one-step form of the handler is its two phases run one after the other.
\<close>

lemma handleResearchQuery_phases:
  "handleResearchQuery chatId message outcome st =
     (case query_begin chatId message st of
        (pending, st1) \<Rightarrow> if pending then query_settle chatId outcome st1 else st1)"
  by (simp add: handleResearchQuery_def query_begin_def query_settle_def emit_def Let_def
      split: option.splits fetch_outcome.splits)

lemma query_begin_admitted:
  assumes "sessions st chatId = Some session" and "status session \<noteq> Processing"
  shows "query_begin chatId message st =
           (True,
            st\<lparr>trace := trace st @
                [Webui ''addUserMessage'' [(''chatId'', JStr chatId), (''content'', JStr message)],
                 Fetch (apiEndpoint st @ ''/api/query'') ''POST''
                   (Some (JObj [(''query'', JStr message),
                                (''session_id'', JStr (sessionId session))]))]\<rparr>)"
  using assms by (simp add: query_begin_def emit_def Let_def)

lemma query_settle_failed:
  assumes "outcome = Resolved False \<and> msg = ''Failed to submit research query''
           \<or> outcome = Rejected msg"
  shows "query_settle chatId outcome st =
           st\<lparr>trace := trace st @
                [ConsoleError ''Error submitting research query:'' msg,
                 Webui ''addSystemMessage''
                   [(''chatId'', JStr chatId), (''content'', JStr (''Error: '' @ msg))]]\<rparr>"
  using assms by (auto simp add: query_settle_def query_failed_def emit_def)

lemma query_settle_ok:
  "query_settle chatId (Resolved True) st =
     (case sessions st chatId of
        None \<Rightarrow> st
      | Some session \<Rightarrow>
          st\<lparr>sessions := (sessions st)(chatId \<mapsto> session\<lparr>status := Processing\<rparr>)\<rparr>)"
  by (simp add: query_settle_def)

lemma idle_state_begin:
  "query_begin ''c1'' ''What is HOL?'' idle_state =
     (True,
      idle_state\<lparr>trace := trace idle_state @
        [Webui ''addUserMessage'' [(''chatId'', JStr ''c1''), (''content'', JStr ''What is HOL?'')],
         Fetch ''http://localhost:8000/api/query'' ''POST''
           (Some (JObj [(''query'', JStr ''What is HOL?''),
                        (''session_id'', JStr ''research-42'')]))]\<rparr>)"
  using query_begin_admitted [of idle_state "''c1''"
      "\<lparr>sessionId = ''research-42'', websocket = Some 0, status = Idle\<rparr>" "''What is HOL?''"]
  by (simp add: idle_state_sessions idle_state_endpoint)

text \<open>
  Claim C4, as the claim states it, fails, in both of its parts. The status is not set
  at admission: after a query has been admitted and its request sent, the status of the
  session is still \<^verbatim>\<open>'idle'\<close>, and a second query submitted while the first
  request is in flight is admitted too. And a request that fails does not leave the
  status \<^verbatim>\<open>'idle'\<close>: when the first of those two requests is answered 2xx
  and the second is not, the status after the failure is \<^verbatim>\<open>'processing'\<close>;
  and after a backend error, when the status is \<^verbatim>\<open>'error'\<close>, a query is
  admitted and its failure leaves the status \<^verbatim>\<open>'error'\<close>.
\<close>

theorem failed_query_status_counterexample:
  "map_option status (sessions (snd (query_begin ''c1'' ''What is HOL?'' idle_state)) ''c1'') =
     Some Idle
   \<and> fst (query_begin ''c1'' ''Second question''
            (snd (query_begin ''c1'' ''What is HOL?'' idle_state))) = True
   \<and> map_option status
        (sessions
           (query_settle ''c1'' (Resolved False)
              (query_settle ''c1'' (Resolved True)
                 (snd (query_begin ''c1'' ''Second question''
                    (snd (query_begin ''c1'' ''What is HOL?'' idle_state))))))
           ''c1'') = Some Processing
   \<and> map_option status (sessions errored_state ''c1'') = Some Error
   \<and> map_option status
        (sessions (handleResearchQuery ''c1'' ''Try again'' (Resolved False) errored_state) ''c1'') =
       Some Error"
  by (simp add: idle_state_begin query_begin_def query_settle_def query_failed_def emit_def
      Let_def idle_state_sessions errored_state_sessions handleResearchQuery_def)

text \<open>
  Claim C4, amended. A query submitted while the status is not \<^verbatim>\<open>'processing'\<close>
  is admitted: the user's message is echoed and the request is posted; the registry is
  left as it is, so the status is not set at admission. When the request is answered
  2xx the handler sets the status of the chat's session to \<^verbatim>\<open>'processing'\<close>,
  whatever has happened since the admission and with no stream event needed. When the
  request is answered with another status, or fails on the network, the handler does
  not touch the registry: the status stays what it is at that moment; the failure is
  logged and a system message \<^verbatim>\<open>Error: <message>\<close> is added to the chat.
  Here \<open>st\<close> is the state at the submission and \<open>st'\<close> any state the plugin is
  in when the request settles.
\<close>

theorem query_admission:
  assumes "sessions st chatId = Some session" and "status session \<noteq> Processing"
  shows "query_begin chatId message st =
           (True,
            st\<lparr>trace := trace st @
                [Webui ''addUserMessage'' [(''chatId'', JStr chatId), (''content'', JStr message)],
                 Fetch (apiEndpoint st @ ''/api/query'') ''POST''
                   (Some (JObj [(''query'', JStr message),
                                (''session_id'', JStr (sessionId session))]))]\<rparr>)
       \<and> query_settle chatId (Resolved True) st' =
           (case sessions st' chatId of
              None \<Rightarrow> st'
            | Some session' \<Rightarrow>
                st'\<lparr>sessions := (sessions st')(chatId \<mapsto> session'\<lparr>status := Processing\<rparr>)\<rparr>)
       \<and> query_settle chatId (Resolved False) st' =
           st'\<lparr>trace := trace st' @
                [ConsoleError ''Error submitting research query:''
                   ''Failed to submit research query'',
                 Webui ''addSystemMessage''
                   [(''chatId'', JStr chatId),
                    (''content'', JStr ''Error: Failed to submit research query'')]]\<rparr>
       \<and> query_settle chatId (Rejected msg) st' =
           st'\<lparr>trace := trace st' @
                [ConsoleError ''Error submitting research query:'' msg,
                 Webui ''addSystemMessage''
                   [(''chatId'', JStr chatId), (''content'', JStr (''Error: '' @ msg))]]\<rparr>
       \<and> handleResearchQuery chatId message outcome st =
           query_settle chatId outcome (snd (query_begin chatId message st))"
  using query_begin_admitted [OF assms, of message] query_settle_ok [of chatId st']
    query_settle_failed [of "Resolved False" "''Failed to submit research query''" chatId st']
    query_settle_failed [of "Rejected msg" msg chatId st']
    handleResearchQuery_phases [of chatId message outcome st]
  by simp

theorem query_admission_witness:
  "sessions idle_state ''c1'' =
     Some \<lparr>sessionId = ''research-42'', websocket = Some 0, status = Idle\<rparr>
   \<and> status \<lparr>sessionId = ''research-42'', websocket = Some 0, status = Idle\<rparr> \<noteq> Processing
   \<and> fst (query_begin ''c1'' ''What is HOL?'' idle_state) = True
   \<and> new_effects idle_state (snd (query_begin ''c1'' ''What is HOL?'' idle_state)) =
       [Webui ''addUserMessage'' [(''chatId'', JStr ''c1''), (''content'', JStr ''What is HOL?'')],
        Fetch ''http://localhost:8000/api/query'' ''POST''
          (Some (JObj [(''query'', JStr ''What is HOL?''),
                       (''session_id'', JStr ''research-42'')]))]
   \<and> map_option status (sessions (snd (query_begin ''c1'' ''What is HOL?'' idle_state)) ''c1'') =
       Some Idle
   \<and> map_option status
        (sessions (query_settle ''c1'' (Resolved True)
           (snd (query_begin ''c1'' ''What is HOL?'' idle_state))) ''c1'') = Some Processing
   \<and> map_option status
        (sessions (query_settle ''c1'' (Rejected ''Failed to fetch'')
           (snd (query_begin ''c1'' ''What is HOL?'' idle_state))) ''c1'') = Some Idle
   \<and> new_effects (snd (query_begin ''c1'' ''What is HOL?'' idle_state))
        (query_settle ''c1'' (Rejected ''Failed to fetch'')
           (snd (query_begin ''c1'' ''What is HOL?'' idle_state))) =
       [ConsoleError ''Error submitting research query:'' ''Failed to fetch'',
        Webui ''addSystemMessage''
          [(''chatId'', JStr ''c1''), (''content'', JStr ''Error: Failed to fetch'')]]"
  using query_admission [of idle_state "''c1''"
      "\<lparr>sessionId = ''research-42'', websocket = Some 0, status = Idle\<rparr>"
      "''What is HOL?''" "snd (query_begin ''c1'' ''What is HOL?'' idle_state)"
      "''Failed to fetch''" "Resolved True"]
  by (simp add: idle_state_begin idle_state_sessions idle_state_endpoint new_effects_def)

section \<open>Completion of a research\<close>

text \<open>
  Claim C8. A \<^verbatim>\<open>research_complete\<close> event whose response carries a result, a
  model, a provider and a numeric process time, for a registered session: the session's
  status becomes \<^verbatim>\<open>'idle'\<close>, the chat status is set to idle, and the last message
  is updated with the result as its content, \<^verbatim>\<open>done: true\<close>, and metadata holding
  the model, the provider and the process time as \<^verbatim>\<open>toFixed(2)\<close> renders it,
  followed by \<^verbatim>\<open>s\<close>. For every process time below \<open>10^21\<close> seconds that
  rendering is the time rounded to the nearest hundredth, written with exactly two
  digits after the point.
\<close>

theorem research_complete_updates_last_message:
  assumes "sessions st chatId = Some session"
    and "get_prop data ''event'' = Inr (JStr ''research_complete'')"
    and "get_prop data ''data'' = Inr d"
    and "get_prop d ''response'' = Inr response"
    and "get_prop response ''result'' = Inr result"
    and "get_prop response ''model'' = Inr model"
    and "get_prop response ''provider'' = Inr provider"
    and "get_prop response ''process_time'' = Inr (JNum t)"
  shows "handleWebSocketMessage rt chatId data st =
           (Inr (),
            st\<lparr>sessions := (sessions st)(chatId \<mapsto> session\<lparr>status := Idle\<rparr>),
               trace := trace st @
                 [Webui ''updateChatStatus''
                    [(''chatId'', JStr chatId), (''status'', JStr ''idle'')],
                  Webui ''updateLastMessage''
                    [(''chatId'', JStr chatId), (''content'', result), (''done'', JBool True),
                     (''metadata'', JObj [(''model'', model), (''provider'', provider),
                        (''process_time'', JStr (toFixed rt 2 t @ ''s''))])]]\<rparr>)
         \<and> (\<bar>t\<bar> < 10 ^ 21 \<longrightarrow>
              toFixed rt 2 t =
                (let n = nat \<lfloor>\<bar>t\<bar> * 100 + 1 / 2\<rfloor>
                 in (if t < 0 then ''-'' else []) @ digits (n div 100) @ ''.'' @
                    [''0123456789'' ! (n div 10 mod 10), ''0123456789'' ! (n mod 10)]))"
proof -
  have "response \<noteq> JUndefined"
    using assms(5) by auto
  then have ed: "get_prop (if truthy d then d else JObj []) ''response'' = Inr response"
    using assms(4) by (simp add: eventData_prop)
  have "handleWebSocketMessage rt chatId data st =
           (Inr (),
            st\<lparr>sessions := (sessions st)(chatId \<mapsto> session\<lparr>status := Idle\<rparr>),
               trace := trace st @
                 [Webui ''updateChatStatus''
                    [(''chatId'', JStr chatId), (''status'', JStr ''idle'')],
                  Webui ''updateLastMessage''
                    [(''chatId'', JStr chatId), (''content'', result), (''done'', JBool True),
                     (''metadata'', JObj [(''model'', model), (''provider'', provider),
                        (''process_time'', JStr (toFixed rt 2 t @ ''s''))])]]\<rparr>)"
    using assms ed
    by (simp add: handleWebSocketMessage_def case_research_complete_def emit_def Let_def)
  then show ?thesis
    using toFixed_two_places by blast
qed

text \<open>
  The scenario of the specification: \<^verbatim>\<open>process_time: 1.234\<close> becomes
  \<^verbatim>\<open>"1.23s"\<close>.
\<close>

theorem research_complete_updates_last_message_witness:
  "sessions busy_state ''c1'' =
     Some \<lparr>sessionId = ''research-42'', websocket = Some 0, status = Processing\<rparr>
   \<and> get_prop complete_frame ''event'' = Inr (JStr ''research_complete'')
   \<and> map_option status
       (sessions (snd (handleWebSocketMessage plain_runtime ''c1'' complete_frame busy_state))
          ''c1'') =
      Some Idle
   \<and> fst (handleWebSocketMessage plain_runtime ''c1'' complete_frame busy_state) = Inr ()
   \<and> new_effects busy_state
        (snd (handleWebSocketMessage plain_runtime ''c1'' complete_frame busy_state)) =
       [Webui ''updateChatStatus'' [(''chatId'', JStr ''c1''), (''status'', JStr ''idle'')],
        Webui ''updateLastMessage''
          [(''chatId'', JStr ''c1''), (''content'', JStr ''Answer.''), (''done'', JBool True),
           (''metadata'', JObj [(''model'', JStr ''m''), (''provider'', JStr ''p''),
              (''process_time'', JStr ''1.23s'')])]]"
  using research_complete_updates_last_message [of busy_state "''c1''"
      "\<lparr>sessionId = ''research-42'', websocket = Some 0, status = Processing\<rparr>"
      complete_frame
      "JObj [(''response'',
              JObj [(''result'', JStr ''Answer.''), (''model'', JStr ''m''),
                    (''provider'', JStr ''p''), (''process_time'', JNum (1234 / 1000))])]"
      "JObj [(''result'', JStr ''Answer.''), (''model'', JStr ''m''),
                    (''provider'', JStr ''p''), (''process_time'', JNum (1234 / 1000))]"
      "JStr ''Answer.''" "JStr ''m''" "JStr ''p''" "1234 / 1000" plain_runtime]
  by (simp add: busy_state_sessions complete_frame_def digits_small digits_large Let_def
      new_effects_def)

section \<open>Terminal events without their payload\<close>

lemma eventData_missing:
  assumes "\<not> truthy d \<or> get_prop d k = Inr JUndefined"
  shows "get_prop (if truthy d then d else JObj []) k = Inr JUndefined"
  using assms by auto

text \<open>
  Claim C9. For a registered session, a \<^verbatim>\<open>research_complete\<close> event whose
  payload (\<^verbatim>\<open>data.data || {}\<close>) has no \<^verbatim>\<open>response\<close>, and a
  \<^verbatim>\<open>research_error\<close> event whose payload has no \<^verbatim>\<open>error\<close>, are not
  discarded: the handler sets the status (\<^verbatim>\<open>'idle'\<close>, respectively
  \<^verbatim>\<open>'error'\<close>), sets the chat status to idle, and then a \<^verbatim>\<open>TypeError\<close>
  leaves it before the last message is updated.
\<close>

theorem terminal_event_without_payload_throws:
  assumes "sessions st chatId = Some session"
    and "get_prop data ''data'' = Inr d"
  shows "(get_prop data ''event'' = Inr (JStr ''research_complete'')
          \<and> (\<not> truthy d \<or> get_prop d ''response'' = Inr JUndefined) \<longrightarrow>
            handleWebSocketMessage rt chatId data st =
              (Inl TypeError,
               st\<lparr>sessions := (sessions st)(chatId \<mapsto> session\<lparr>status := Idle\<rparr>),
                  trace := trace st @
                    [Webui ''updateChatStatus''
                       [(''chatId'', JStr chatId), (''status'', JStr ''idle'')]]\<rparr>))
       \<and> (get_prop data ''event'' = Inr (JStr ''research_error'')
          \<and> (\<not> truthy d \<or> get_prop d ''error'' = Inr JUndefined) \<longrightarrow>
            handleWebSocketMessage rt chatId data st =
              (Inl TypeError,
               st\<lparr>sessions := (sessions st)(chatId \<mapsto> session\<lparr>status := Error\<rparr>),
                  trace := trace st @
                    [Webui ''updateChatStatus''
                       [(''chatId'', JStr chatId), (''status'', JStr ''idle'')]]\<rparr>))"
proof (intro conjI impI)
  assume a: "get_prop data ''event'' = Inr (JStr ''research_complete'')
          \<and> (\<not> truthy d \<or> get_prop d ''response'' = Inr JUndefined)"
  then have "get_prop (if truthy d then d else JObj []) ''response'' = Inr JUndefined"
    by (simp add: eventData_missing)
  then show "handleWebSocketMessage rt chatId data st =
              (Inl TypeError,
               st\<lparr>sessions := (sessions st)(chatId \<mapsto> session\<lparr>status := Idle\<rparr>),
                  trace := trace st @
                    [Webui ''updateChatStatus''
                       [(''chatId'', JStr chatId), (''status'', JStr ''idle'')]]\<rparr>)"
    using assms a
    by (simp add: handleWebSocketMessage_def case_research_complete_def emit_def Let_def)
next
  assume a: "get_prop data ''event'' = Inr (JStr ''research_error'')
          \<and> (\<not> truthy d \<or> get_prop d ''error'' = Inr JUndefined)"
  then have "get_prop (if truthy d then d else JObj []) ''error'' = Inr JUndefined"
    by (simp add: eventData_missing)
  then show "handleWebSocketMessage rt chatId data st =
              (Inl TypeError,
               st\<lparr>sessions := (sessions st)(chatId \<mapsto> session\<lparr>status := Error\<rparr>),
                  trace := trace st @
                    [Webui ''updateChatStatus''
                       [(''chatId'', JStr chatId), (''status'', JStr ''idle'')]]\<rparr>)"
    using assms a
    by (simp add: handleWebSocketMessage_def case_research_error_def emit_def Let_def)
qed

theorem terminal_event_without_payload_throws_witness:
  "sessions busy_state ''c1'' =
     Some \<lparr>sessionId = ''research-42'', websocket = Some 0, status = Processing\<rparr>
   \<and> get_prop (JObj [(''event'', JStr ''research_complete'')]) ''data'' = Inr JUndefined
   \<and> \<not> truthy JUndefined
   \<and> fst (handleWebSocketMessage plain_runtime ''c1''
           (JObj [(''event'', JStr ''research_complete'')]) busy_state) = Inl TypeError
   \<and> map_option status
        (sessions (snd (handleWebSocketMessage plain_runtime ''c1''
           (JObj [(''event'', JStr ''research_complete'')]) busy_state)) ''c1'') = Some Idle
   \<and> new_effects busy_state (snd (handleWebSocketMessage plain_runtime ''c1''
           (JObj [(''event'', JStr ''research_complete'')]) busy_state)) =
       [Webui ''updateChatStatus'' [(''chatId'', JStr ''c1''), (''status'', JStr ''idle'')]]"
  using terminal_event_without_payload_throws [of busy_state "''c1''"
      "\<lparr>sessionId = ''research-42'', websocket = Some 0, status = Processing\<rparr>"
      "JObj [(''event'', JStr ''research_complete'')]" JUndefined plain_runtime]
  by (simp add: busy_state_sessions new_effects_def)

section \<open>A chat whose provisioning failed\<close>

text \<open>
  When the provisioning request of a new chat is rejected (it fails on the network),
  the registry, the sockets and the timers are as before (no entry for the chat, no
  connection); the user sees the error message. From then on a message sent in that
  chat is left to the host's default handling and does nothing in the plugin, and a
  stream event, a deletion or a reconnect for that chat leaves the plugin as it is.
\<close>

theorem failed_provisioning_leaves_no_session:
  assumes "sessions st chatId = None"
    and "st' = snd (createResearchChat now chatId (Rejected msg) st)"
  shows "fst (createResearchChat now chatId (Rejected msg) st) = chatId
     \<and> sessions st' = sessions st \<and> sockets st' = sockets st \<and> timers st' = timers st
     \<and> new_effects st st' =
         [Webui ''createChat''
            [(''title'', JStr ''Research Session''), (''type'', JStr ''research''),
             (''metadata'', JObj [(''sessionId'', JStr (''research-'' @ digits now))])],
          Fetch (apiEndpoint st @ ''/api/sessions'') ''POST''
            (Some (JObj [(''session_id'', JStr (''research-'' @ digits now))])),
          ConsoleError ''Failed to create research session:'' msg,
          Webui ''addSystemMessage''
            [(''chatId'', JStr chatId),
             (''content'', JStr ''Error: Failed to initialize research session. Please try again.'')]]
     \<and> on_message_send chatId message outcome st' = (False, st')
     \<and> handleResearchQuery chatId message outcome st' = st'
     \<and> handleWebSocketMessage rt chatId data st' = (Inr (), st')
     \<and> on_chat_delete chatId outcome st' = st'
     \<and> cleanupSession chatId outcome st' = st'
     \<and> connectWebSocket chatId sid st' = st'"
  using assms
  by (simp add: createResearchChat_def emit_def Let_def new_effects_def on_message_send_def
      handleResearchQuery_def handleWebSocketMessage_def on_chat_delete_def cleanupSession_def
      connectWebSocket_def)

theorem failed_provisioning_leaves_no_session_witness:
  "sessions idle_state ''c2'' = None
   \<and> sessions (snd (createResearchChat 43 ''c2'' (Rejected ''Failed to fetch'') idle_state)) ''c2'' = None
   \<and> sockets (snd (createResearchChat 43 ''c2'' (Rejected ''Failed to fetch'') idle_state)) =
       sockets idle_state
   \<and> fst (on_message_send ''c2'' ''hello'' (Resolved True)
        (snd (createResearchChat 43 ''c2'' (Rejected ''Failed to fetch'') idle_state))) = False
   \<and> new_effects idle_state
        (snd (createResearchChat 43 ''c2'' (Rejected ''Failed to fetch'') idle_state)) =
       [Webui ''createChat''
          [(''title'', JStr ''Research Session''), (''type'', JStr ''research''),
           (''metadata'', JObj [(''sessionId'', JStr ''research-43'')])],
        Fetch ''http://localhost:8000/api/sessions'' ''POST''
          (Some (JObj [(''session_id'', JStr ''research-43'')])),
        ConsoleError ''Failed to create research session:'' ''Failed to fetch'',
        Webui ''addSystemMessage''
          [(''chatId'', JStr ''c2''),
           (''content'', JStr ''Error: Failed to initialize research session. Please try again.'')]]"
  using failed_provisioning_leaves_no_session [of idle_state "''c2''"
      "snd (createResearchChat 43 ''c2'' (Rejected ''Failed to fetch'') idle_state)" 43
      "''Failed to fetch''" "''hello''" "Resolved True" plain_runtime JNull "''research-43''"]
  by (simp add: idle_state_sessions idle_state_endpoint digits_small digits_large)

text \<open>
  The answer to the provisioning request is not inspected: a response that is not 2xx
  registers the session and opens the stream exactly as a 2xx response does.
\<close>

lemma provisioning_status_not_inspected:
  "createResearchChat now chatId (Resolved False) st =
   createResearchChat now chatId (Resolved True) st"
  by (simp add: createResearchChat_def)

text \<open>
  Claim C10. When backend provisioning fails, no registry entry is inserted and no
  stream is opened, so later messages of the chat bypass the plugin. The code does this
  when the request is rejected, and does not when the backend answers the request
  with a status that is not 2xx: \<^verbatim>\<open>createResearchChat\<close> never looks at the
  response (\<^verbatim>\<open>handleResearchQuery\<close> does, and throws), so the
  \<^verbatim>\<open>catch\<close> with its error message is not reached. For a chat \<^verbatim>\<open>c2\<close>
  whose provisioning the backend has refused, the session is registered, a socket is
  opened and is the chat's open listener, the welcome message is shown, and the next
  message sent in the chat is taken by the plugin.
\<close>

theorem provisioning_refused_registers_session:
  "sessions idle_state ''c2'' = None
   \<and> sessions (snd (createResearchChat 43 ''c2'' (Resolved False) idle_state)) ''c2'' =
       Some \<lparr>sessionId = ''research-43'', websocket = Some 1, status = Idle\<rparr>
   \<and> new_effects idle_state (snd (createResearchChat 43 ''c2'' (Resolved False) idle_state)) =
       [Webui ''createChat''
          [(''title'', JStr ''Research Session''), (''type'', JStr ''research''),
           (''metadata'', JObj [(''sessionId'', JStr ''research-43'')])],
        Fetch ''http://localhost:8000/api/sessions'' ''POST''
          (Some (JObj [(''session_id'', JStr ''research-43'')])),
        WsNew 1 ''ws://localhost:8000/ws/research-43'',
        Webui ''addSystemMessage'' [(''chatId'', JStr ''c2''), (''content'', JStr welcome_text)]]
   \<and> live_listeners (snd (createResearchChat 43 ''c2'' (Resolved False) idle_state)) ''c2'' = [1]
   \<and> fst (on_message_send ''c2'' ''hello'' (Resolved True)
        (snd (createResearchChat 43 ''c2'' (Resolved False) idle_state))) = True"
  by (simp add: createResearchChat_def connectWebSocket_def emit_def Let_def new_effects_def
      on_message_send_def live_listeners_def idle_state_sessions idle_state_sockets
      idle_state_endpoint digits_small digits_large)

section \<open>What the dispatcher leaves unchanged\<close>

lemma replay_messages_frame:
  "sessions (snd (replay_messages chatId ms st)) = sessions st
   \<and> sockets (snd (replay_messages chatId ms st)) = sockets st
   \<and> timers (snd (replay_messages chatId ms st)) = timers st
   \<and> apiEndpoint (snd (replay_messages chatId ms st)) = apiEndpoint st"
  by (induction ms arbitrary: st) (auto simp add: emit_def split: sum.splits)

lemma case_token_frame:
  "sessions (snd (case_token chatId ed st)) = sessions st
   \<and> sockets (snd (case_token chatId ed st)) = sockets st
   \<and> timers (snd (case_token chatId ed st)) = timers st
   \<and> apiEndpoint (snd (case_token chatId ed st)) = apiEndpoint st"
  by (auto simp add: case_token_def emit_def split: sum.splits)

lemma case_tool_start_frame:
  "sessions (snd (case_tool_start rt chatId ed st)) = sessions st
   \<and> sockets (snd (case_tool_start rt chatId ed st)) = sockets st
   \<and> timers (snd (case_tool_start rt chatId ed st)) = timers st
   \<and> apiEndpoint (snd (case_tool_start rt chatId ed st)) = apiEndpoint st"
  by (auto simp add: case_tool_start_def emit_def split: sum.splits)

lemma case_tool_end_frame:
  "sessions (snd (case_tool_end rt chatId ed st)) = sessions st
   \<and> sockets (snd (case_tool_end rt chatId ed st)) = sockets st
   \<and> timers (snd (case_tool_end rt chatId ed st)) = timers st
   \<and> apiEndpoint (snd (case_tool_end rt chatId ed st)) = apiEndpoint st"
  by (auto simp add: case_tool_end_def emit_def split: sum.splits)

lemma case_session_state_frame:
  "sessions (snd (case_session_state rt chatId ed st)) = sessions st
   \<and> sockets (snd (case_session_state rt chatId ed st)) = sockets st
   \<and> timers (snd (case_session_state rt chatId ed st)) = timers st
   \<and> apiEndpoint (snd (case_session_state rt chatId ed st)) = apiEndpoint st"
  by (auto simp add: case_session_state_def replay_messages_frame split: sum.splits option.splits)

lemma case_research_start_frame:
  "sessions (snd (case_research_start chatId s st)) = (sessions st)(chatId \<mapsto> s\<lparr>status := Processing\<rparr>)
   \<and> sockets (snd (case_research_start chatId s st)) = sockets st
   \<and> timers (snd (case_research_start chatId s st)) = timers st
   \<and> apiEndpoint (snd (case_research_start chatId s st)) = apiEndpoint st"
  by (simp add: case_research_start_def emit_def Let_def)

lemma case_research_complete_frame:
  "sessions (snd (case_research_complete rt chatId s ed st)) = (sessions st)(chatId \<mapsto> s\<lparr>status := Idle\<rparr>)
   \<and> sockets (snd (case_research_complete rt chatId s ed st)) = sockets st
   \<and> timers (snd (case_research_complete rt chatId s ed st)) = timers st
   \<and> apiEndpoint (snd (case_research_complete rt chatId s ed st)) = apiEndpoint st"
  by (auto simp add: case_research_complete_def emit_def Let_def split: sum.splits)

lemma case_research_error_frame:
  "sessions (snd (case_research_error rt chatId s ed st)) = (sessions st)(chatId \<mapsto> s\<lparr>status := Error\<rparr>)
   \<and> sockets (snd (case_research_error rt chatId s ed st)) = sockets st
   \<and> timers (snd (case_research_error rt chatId s ed st)) = timers st
   \<and> apiEndpoint (snd (case_research_error rt chatId s ed st)) = apiEndpoint st"
  by (auto simp add: case_research_error_def emit_def Let_def split: sum.splits)

lemmas case_frames = case_token_frame case_tool_start_frame case_tool_end_frame
  case_session_state_frame case_research_start_frame case_research_complete_frame
  case_research_error_frame

lemma handleWebSocketMessage_frame:
  "sockets (snd (handleWebSocketMessage rt chatId data st)) = sockets st
   \<and> timers (snd (handleWebSocketMessage rt chatId data st)) = timers st
   \<and> apiEndpoint (snd (handleWebSocketMessage rt chatId data st)) = apiEndpoint st"
  by (simp add: handleWebSocketMessage_def case_frames Let_def split: option.splits sum.splits)

lemma get_prop_defined:
  assumes "get_prop v k = Inr x"
  obtains y where "get_prop v k' = Inr y"
  using assms by (cases v) auto

lemma handleWebSocketMessage_sessions:
  assumes "sessions st chatId = Some s"
  shows "sessions (snd (handleWebSocketMessage rt chatId data st)) =
           (sessions st)(chatId \<mapsto> s\<lparr>status := status_after data (status s)\<rparr>)"
proof (cases "get_prop data ''event''")
  case (Inl e)
  then show ?thesis
    using assms by (simp add: handleWebSocketMessage_def status_after_def map_upd_triv)
next
  case (Inr event)
  then obtain d where d: "get_prop data ''data'' = Inr d"
    by (rule get_prop_defined)
  show ?thesis
    using assms Inr d
    by (simp add: handleWebSocketMessage_def case_frames Let_def status_after_def map_upd_triv)
qed

lemma handleWebSocketMessage_unregistered:
  assumes "sessions st chatId = None"
  shows "handleWebSocketMessage rt chatId data st = (Inr (), st)"
  using assms by (simp add: handleWebSocketMessage_def)

section \<open>The registry invariant\<close>

lemma inv_new_plugin: "registry_inv (new_plugin endpoint)"
  by (simp add: registry_inv_def new_plugin_def)

lemma inv_same:
  assumes "registry_inv st" and "sessions st' = sessions st" and "sockets st' = sockets st"
  shows "registry_inv st'"
  using assms by (simp add: registry_inv_def)

lemma inv_status_update:
  assumes "registry_inv st" and "sessions st c = Some s"
    and "sessions st' = (sessions st)(c \<mapsto> s\<lparr>status := v\<rparr>)" and "sockets st' = sockets st"
  shows "registry_inv st'"
  unfolding registry_inv_def
proof (intro conjI allI impI)
  fix c' s' assume "sessions st' c' = Some s'"
  then show "\<exists>w. websocket s' = Some w \<and> w < length (sockets st')"
    using assms by (cases "c' = c") (auto simp add: registry_inv_def)
next
  fix w assume "w < length (sockets st')" and "\<not> ws_closed (sockets st' ! w)"
  then obtain s' where "sessions st (ws_chatId (sockets st ! w)) = Some s'" "websocket s' = Some w"
    using assms by (auto simp add: registry_inv_def)
  then show "\<exists>s. sessions st' (ws_chatId (sockets st' ! w)) = Some s \<and> websocket s = Some w"
    using assms by (cases "ws_chatId (sockets st ! w) = c") auto
qed

lemma ws_close_fields:
  "sessions (ws_close w st) = sessions st \<and> timers (ws_close w st) = timers st
   \<and> apiEndpoint (ws_close w st) = apiEndpoint st
   \<and> length (sockets (ws_close w st)) = length (sockets st)"
  by (simp add: ws_close_def emit_def)

lemma ws_close_nth:
  assumes "w' < length (sockets st)"
  shows "ws_closed (sockets (ws_close w st) ! w') = (w' = w \<or> ws_closed (sockets st ! w'))"
    and "ws_chatId (sockets (ws_close w st) ! w') = ws_chatId (sockets st ! w')"
  using assms by (auto simp add: ws_close_def emit_def nth_list_update)

lemma inv_connect_pre: "registry_inv st \<Longrightarrow> connect_pre chatId st"
  by (simp add: registry_inv_def connect_pre_def)

lemma connectWebSocket_unregistered:
  "sessions st chatId = None \<Longrightarrow> connectWebSocket chatId sid st = st"
  by (simp add: connectWebSocket_def)

lemma connectWebSocket_fields:
  assumes "sessions st chatId = Some s"
  shows "sessions (connectWebSocket chatId sid st) =
           (sessions st)(chatId \<mapsto> s\<lparr>websocket := Some (length (sockets st))\<rparr>)"
    and "length (sockets (connectWebSocket chatId sid st)) = Suc (length (sockets st))"
    and "ws_chatId (sockets (connectWebSocket chatId sid st) ! length (sockets st)) = chatId"
    and "\<not> ws_closed (sockets (connectWebSocket chatId sid st) ! length (sockets st))"
    and "timers (connectWebSocket chatId sid st) = timers st"
  using assms
  by (auto simp add: connectWebSocket_def Let_def emit_def ws_close_fields nth_append
      split: option.splits)

lemma connectWebSocket_old_sockets:
  assumes "sessions st chatId = Some s" and "w < length (sockets st)"
  shows "ws_closed (sockets (connectWebSocket chatId sid st) ! w) =
           (websocket s = Some w \<or> ws_closed (sockets st ! w))"
    and "ws_chatId (sockets (connectWebSocket chatId sid st) ! w) = ws_chatId (sockets st ! w)"
  using assms
  by (auto simp add: connectWebSocket_def Let_def emit_def ws_close_fields ws_close_nth nth_append
      split: option.splits)

lemma inv_connectWebSocket:
  assumes "connect_pre chatId st"
  shows "registry_inv (connectWebSocket chatId sid st) \<or> sessions st chatId = None"
proof (cases "sessions st chatId")
  case None
  then show ?thesis by simp
next
  case (Some s)
  let ?st' = "connectWebSocket chatId sid st"
  let ?n = "length (sockets st)"
  note f = connectWebSocket_fields [OF Some, of sid]
  have "registry_inv ?st'"
    unfolding registry_inv_def
  proof (intro conjI allI impI)
    fix c s' assume a: "sessions ?st' c = Some s'"
    show "\<exists>w. websocket s' = Some w \<and> w < length (sockets ?st')"
    proof (cases "c = chatId")
      case True
      then show ?thesis using a f by auto
    next
      case False
      then have "sessions st c = Some s'" using a f by auto
      then obtain w where "websocket s' = Some w" "w < ?n"
        using assms False unfolding connect_pre_def by blast
      then show ?thesis using f by auto
    qed
  next
    fix w assume w: "w < length (sockets ?st')" and live: "\<not> ws_closed (sockets ?st' ! w)"
    show "\<exists>s'. sessions ?st' (ws_chatId (sockets ?st' ! w)) = Some s' \<and> websocket s' = Some w"
    proof (cases "w = ?n")
      case True
      then show ?thesis using f by auto
    next
      case False
      then have lt: "w < ?n" using w f by auto
      note o = connectWebSocket_old_sockets [OF Some lt, of sid]
      from live o have ne: "websocket s \<noteq> Some w" and l0: "\<not> ws_closed (sockets st ! w)"
        by auto
      from assms lt l0 obtain s' where
        s': "sessions st (ws_chatId (sockets st ! w)) = Some s'" "websocket s' = Some w"
        unfolding connect_pre_def by blast
      with ne Some have "ws_chatId (sockets st ! w) \<noteq> chatId" by auto
      then show ?thesis using s' o f by auto
    qed
  qed
  then show ?thesis ..
qed

lemma inv_createResearchChat:
  assumes "registry_inv st" and "sessions st chatId = None"
  shows "registry_inv (snd (createResearchChat now chatId outcome st))"
proof (cases outcome)
  case (Rejected msg)
  then show ?thesis
    using assms(1) by (auto simp add: createResearchChat_def Let_def emit_def intro: inv_same)
next
  case (Resolved ok)
  define sid where "sid = ''research-'' @ digits now"
  define st3 where "st3 =
    (emit (Fetch (apiEndpoint st @ ''/api/sessions'') ''POST''
                  (Some (JObj [(''session_id'', JStr sid)])))
      (emit (Webui ''createChat''
                  [(''title'', JStr ''Research Session''), (''type'', JStr ''research''),
                   (''metadata'', JObj [(''sessionId'', JStr sid)])]) st))
      \<lparr>sessions := (sessions st)(chatId \<mapsto> \<lparr>sessionId = sid, websocket = None, status = Idle\<rparr>)\<rparr>"
  have s3: "sessions st3 = (sessions st)(chatId \<mapsto> \<lparr>sessionId = sid, websocket = None, status = Idle\<rparr>)"
    and k3: "sockets st3 = sockets st"
    by (simp_all add: st3_def emit_def)
  have "connect_pre chatId st3"
    unfolding connect_pre_def
  proof (intro conjI allI impI)
    fix c s assume "c \<noteq> chatId" "sessions st3 c = Some s"
    then show "\<exists>w. websocket s = Some w \<and> w < length (sockets st3)"
      using assms(1) s3 k3 by (auto simp add: registry_inv_def)
  next
    fix w assume "w < length (sockets st3)" "\<not> ws_closed (sockets st3 ! w)"
    then obtain s where s: "sessions st (ws_chatId (sockets st ! w)) = Some s" "websocket s = Some w"
      using assms(1) k3 unfolding registry_inv_def by auto
    with assms(2) have "ws_chatId (sockets st ! w) \<noteq> chatId" by auto
    then show "\<exists>s. sessions st3 (ws_chatId (sockets st3 ! w)) = Some s \<and> websocket s = Some w"
      using s s3 k3 by auto
  qed
  then have "registry_inv (connectWebSocket chatId sid st3)"
    using inv_connectWebSocket [of chatId st3 sid] s3 by auto
  moreover have "snd (createResearchChat now chatId outcome st) =
      emit (Webui ''addSystemMessage''
                   [(''chatId'', JStr chatId), (''content'', JStr welcome_text)])
        (connectWebSocket chatId sid st3)"
    using Resolved by (simp add: createResearchChat_def Let_def st3_def sid_def emit_def)
  ultimately show ?thesis
    by (auto simp add: emit_def intro: inv_same)
qed

lemma cleanupSession_fields:
  assumes "sessions st chatId = Some s"
  shows "sessions (cleanupSession chatId outcome st) = (sessions st)(chatId := None)"
    and "length (sockets (cleanupSession chatId outcome st)) = length (sockets st)"
    and "timers (cleanupSession chatId outcome st) = timers st"
  using assms
  by (auto simp add: cleanupSession_def Let_def emit_def ws_close_fields
      split: option.splits fetch_outcome.splits)

lemma cleanupSession_sockets:
  assumes "sessions st chatId = Some s" and "w < length (sockets st)"
  shows "ws_closed (sockets (cleanupSession chatId outcome st) ! w) =
           (websocket s = Some w \<or> ws_closed (sockets st ! w))"
    and "ws_chatId (sockets (cleanupSession chatId outcome st) ! w) = ws_chatId (sockets st ! w)"
  using assms
  by (auto simp add: cleanupSession_def Let_def emit_def ws_close_nth
      split: option.splits fetch_outcome.splits)

lemma inv_cleanupSession:
  assumes "registry_inv st"
  shows "registry_inv (cleanupSession chatId outcome st)"
proof (cases "sessions st chatId")
  case None
  then show ?thesis using assms by (simp add: cleanupSession_def)
next
  case (Some s)
  let ?st' = "cleanupSession chatId outcome st"
  note f = cleanupSession_fields [OF Some, of outcome]
  show ?thesis
    unfolding registry_inv_def
  proof (intro conjI allI impI)
    fix c s' assume "sessions ?st' c = Some s'"
    then have "sessions st c = Some s'" using f by (auto split: if_splits)
    then show "\<exists>w. websocket s' = Some w \<and> w < length (sockets ?st')"
      using assms f unfolding registry_inv_def by auto
  next
    fix w assume w: "w < length (sockets ?st')" and live: "\<not> ws_closed (sockets ?st' ! w)"
    then have lt: "w < length (sockets st)" using f by simp
    note o = cleanupSession_sockets [OF Some lt, of outcome]
    from live o have ne: "websocket s \<noteq> Some w" and l0: "\<not> ws_closed (sockets st ! w)"
      by auto
    from assms lt l0 obtain s' where
      s': "sessions st (ws_chatId (sockets st ! w)) = Some s'" "websocket s' = Some w"
      unfolding registry_inv_def by blast
    with ne Some have "ws_chatId (sockets st ! w) \<noteq> chatId" by auto
    then show "\<exists>s'. sessions ?st' (ws_chatId (sockets ?st' ! w)) = Some s' \<and> websocket s' = Some w"
      using s' o f by auto
  qed
qed

lemma handleResearchQuery_fields:
  assumes "sessions st chatId = Some s"
  shows "sessions (handleResearchQuery chatId message outcome st) =
           (sessions st)(chatId \<mapsto> s\<lparr>status :=
              (if status s \<noteq> Processing \<and> outcome = Resolved True then Processing else status s)\<rparr>)"
    and "sockets (handleResearchQuery chatId message outcome st) = sockets st"
    and "timers (handleResearchQuery chatId message outcome st) = timers st"
  using assms
  by (auto simp add: handleResearchQuery_def query_failed_def Let_def emit_def map_upd_triv
      split: fetch_outcome.splits)

lemma inv_handleResearchQuery:
  assumes "registry_inv st"
  shows "registry_inv (handleResearchQuery chatId message outcome st)"
proof (cases "sessions st chatId")
  case None
  then show ?thesis using assms by (simp add: handleResearchQuery_def)
next
  case (Some s)
  show ?thesis
    using assms Some handleResearchQuery_fields(1,2) [OF Some]
    by (rule inv_status_update)
qed

lemma inv_handleWebSocketMessage:
  assumes "registry_inv st"
  shows "registry_inv (snd (handleWebSocketMessage rt chatId data st))"
proof (cases "sessions st chatId")
  case None
  then show ?thesis using assms by (simp add: handleWebSocketMessage_unregistered)
next
  case (Some s)
  show ?thesis
    using assms Some handleWebSocketMessage_sessions [OF Some]
    by (rule inv_status_update) (simp add: handleWebSocketMessage_frame)
qed

lemma onclose_fields:
  "sessions (onclose chatId sid st) = sessions st \<and> sockets (onclose chatId sid st) = sockets st"
  by (simp add: onclose_def Let_def emit_def)

lemma inv_mark_closed:
  assumes "registry_inv st"
  shows "registry_inv (st\<lparr>sockets := (sockets st)
           [w := (sockets st ! w)\<lparr>ws_closed := True, ws_close_fired := True\<rparr>]\<rparr>)"
  unfolding registry_inv_def
proof (intro conjI allI impI)
  fix c s assume "sessions (st\<lparr>sockets := (sockets st)
           [w := (sockets st ! w)\<lparr>ws_closed := True, ws_close_fired := True\<rparr>]\<rparr>) c = Some s"
  then show "\<exists>w'. websocket s = Some w' \<and> w' < length (sockets (st\<lparr>sockets := (sockets st)
           [w := (sockets st ! w)\<lparr>ws_closed := True, ws_close_fired := True\<rparr>]\<rparr>))"
    using assms by (simp add: registry_inv_def)
next
  fix w' assume a: "w' < length (sockets (st\<lparr>sockets := (sockets st)
           [w := (sockets st ! w)\<lparr>ws_closed := True, ws_close_fired := True\<rparr>]\<rparr>))"
    "\<not> ws_closed (sockets (st\<lparr>sockets := (sockets st)
           [w := (sockets st ! w)\<lparr>ws_closed := True, ws_close_fired := True\<rparr>]\<rparr>) ! w')"
  then have "w' \<noteq> w" by (auto simp add: nth_list_update)
  then show "\<exists>s. sessions (st\<lparr>sockets := (sockets st)
           [w := (sockets st ! w)\<lparr>ws_closed := True, ws_close_fired := True\<rparr>]\<rparr>)
        (ws_chatId (sockets (st\<lparr>sockets := (sockets st)
           [w := (sockets st ! w)\<lparr>ws_closed := True, ws_close_fired := True\<rparr>]\<rparr>) ! w')) = Some s
      \<and> websocket s = Some w'"
    using a assms by (simp add: registry_inv_def)
qed

lemma inv_step:
  assumes "registry_inv st" and "admissible ev st"
  shows "registry_inv (step rt ev st)"
proof (cases ev)
  case (CreateChat now chatId outcome)
  then show ?thesis
    using assms by (simp add: step_def admissible_def inv_createResearchChat)
next
  case (MessageSend chatId message outcome)
  then show ?thesis
    using assms by (simp add: step_def on_message_send_def inv_handleResearchQuery)
next
  case (ChatDelete chatId outcome)
  then show ?thesis
    using assms by (simp add: step_def on_chat_delete_def inv_cleanupSession)
next
  case (WsOpened w)
  then show ?thesis
    using assms by (auto simp add: step_def onopen_def emit_def intro: inv_same)
next
  case (WsMessage w parsed)
  then show ?thesis
    using assms by (cases parsed) (simp_all add: step_def onmessage_def inv_handleWebSocketMessage)
next
  case (WsErrored w err)
  then show ?thesis
    using assms by (auto simp add: step_def onerror_def emit_def intro: inv_same)
next
  case (WsClosed w)
  then show ?thesis
    using assms(1) inv_mark_closed [OF assms(1), of w]
    by (auto simp add: step_def onclose_fields intro: inv_same)
next
  case (TimerFired i)
  show ?thesis
  proof (cases "i < length (timers st)")
    case False
    then show ?thesis using assms TimerFired by (simp add: step_def)
  next
    case True
    obtain ms chatId sid where t: "timers st ! i = (ms, chatId, sid)"
      by (cases "timers st ! i") auto
    let ?st1 = "st\<lparr>timers := take i (timers st) @ drop (Suc i) (timers st)\<rparr>"
    have inv1: "registry_inv ?st1"
      using assms(1) by (auto intro: inv_same)
    have "registry_inv (connectWebSocket chatId sid ?st1)"
    proof (cases "sessions ?st1 chatId")
      case None
      then show ?thesis using inv1 by (simp add: connectWebSocket_unregistered)
    next
      case (Some s)
      then show ?thesis
        using inv_connectWebSocket [OF inv_connect_pre [OF inv1], of chatId sid] by auto
    qed
    then show ?thesis
      using TimerFired True t by (simp add: step_def)
  qed
qed

lemma inv_run:
  assumes "registry_inv st" and "admissible_run rt evs st"
  shows "registry_inv (run rt evs st)"
  using assms
proof (induction evs arbitrary: st)
  case Nil
  then show ?case by (simp add: run_def)
next
  case (Cons ev evs)
  then have "registry_inv (step rt ev st)" and "admissible_run rt evs (step rt ev st)"
    by (simp_all add: inv_step)
  then have "registry_inv (run rt evs (step rt ev st))"
    by (rule Cons.IH)
  then show ?case by (simp add: run_def)
qed

lemma inv_one_listener:
  assumes "registry_inv st"
  shows "length (live_listeners st chatId) \<le> 1"
proof -
  have d: "distinct (live_listeners st chatId)"
    by (simp add: live_listeners_def)
  have "set (live_listeners st chatId) \<subseteq> set_option (case sessions st chatId of None \<Rightarrow> None | Some s \<Rightarrow> websocket s)"
    using assms unfolding registry_inv_def live_listeners_def by (auto split: option.splits)
  then have "card (set (live_listeners st chatId)) \<le> card (set_option (case sessions st chatId of None \<Rightarrow> None | Some s \<Rightarrow> websocket s))"
    by (intro card_mono) (auto split: option.splits)
  also have "\<dots> \<le> 1"
    by (cases "sessions st chatId"; cases "websocket (the (sessions st chatId))") auto
  finally show ?thesis
    using d by (simp add: distinct_card)
qed

section \<open>Status transitions\<close>

lemma createResearchChat_other:
  assumes "c \<noteq> chatId"
  shows "sessions (snd (createResearchChat now chatId outcome st)) c = sessions st c"
proof (cases outcome)
  case (Rejected msg)
  then show ?thesis by (simp add: createResearchChat_def Let_def emit_def)
next
  case (Resolved ok)
  then show ?thesis
    using assms
    by (simp add: createResearchChat_def Let_def emit_def connectWebSocket_fields(1))
qed

lemma status_after_cases:
  "status_after data old = old
   \<or> (status_after data old = Processing \<and> get_prop data ''event'' = Inr (JStr ''research_start''))
   \<or> (status_after data old = Idle \<and> get_prop data ''event'' = Inr (JStr ''research_complete''))
   \<or> (status_after data old = Error \<and> get_prop data ''event'' = Inr (JStr ''research_error''))"
  by (auto simp add: status_after_def split: sum.splits)

text \<open>
  Claim C1, amended. In one step of the plugin the status of a registered session
  changes only in one of three ways: it becomes \<^verbatim>\<open>'processing'\<close> (from
  \<^verbatim>\<open>'idle'\<close> or \<^verbatim>\<open>'error'\<close>) when a query of the chat is admitted and
  its request is answered 2xx, or when an open socket of the chat delivers
  \<^verbatim>\<open>research_start\<close>; it becomes \<^verbatim>\<open>'idle'\<close> (from
  \<^verbatim>\<open>'processing'\<close> or \<^verbatim>\<open>'error'\<close>) when an open socket of the chat
  delivers \<^verbatim>\<open>research_complete\<close>; it becomes \<^verbatim>\<open>'error'\<close> (from
  \<^verbatim>\<open>'idle'\<close> or \<^verbatim>\<open>'processing'\<close>) when an open socket of the chat
  delivers \<^verbatim>\<open>research_error\<close>. This holds in every state, so along every
  sequence of operations and events.
\<close>

theorem status_transitions:
  assumes "admissible ev st"
    and "sessions st chatId = Some s" and "sessions (step rt ev st) chatId = Some s'"
    and "status s' \<noteq> status s"
  shows "(status s' = Processing
          \<and> (query_admitted ev chatId \<or> stream_event ev st chatId ''research_start''))
       \<or> (status s' = Idle \<and> stream_event ev st chatId ''research_complete'')
       \<or> (status s' = Error \<and> stream_event ev st chatId ''research_error'')"
proof (cases ev)
  case (CreateChat now c outcome)
  then have "c \<noteq> chatId" using assms(1,2) by (auto simp add: admissible_def)
  then have "sessions (step rt ev st) chatId = sessions st chatId"
    using CreateChat by (simp add: step_def createResearchChat_other)
  then show ?thesis using assms by simp
next
  case (MessageSend c message outcome)
  show ?thesis
  proof (cases "c = chatId")
    case True
    then have "sessions (step rt ev st) =
        (sessions st)(chatId \<mapsto> s\<lparr>status :=
              (if status s \<noteq> Processing \<and> outcome = Resolved True then Processing else status s)\<rparr>)"
      using MessageSend assms(2) by (simp add: step_def on_message_send_def handleResearchQuery_fields)
    then show ?thesis
      using assms MessageSend True by (auto simp add: query_admitted_def split: if_splits)
  next
    case False
    have "sessions (step rt ev st) chatId = sessions st chatId"
    proof (cases "sessions st c")
      case None
      then show ?thesis using MessageSend by (simp add: step_def on_message_send_def)
    next
      case (Some s0)
      then show ?thesis
        using MessageSend False by (simp add: step_def on_message_send_def handleResearchQuery_fields)
    qed
    then show ?thesis using assms by simp
  qed
next
  case (ChatDelete c outcome)
  have "sessions (step rt ev st) chatId = sessions st chatId \<or> sessions (step rt ev st) chatId = None"
  proof (cases "sessions st c")
    case None
    then show ?thesis using ChatDelete by (simp add: step_def on_chat_delete_def)
  next
    case (Some s0)
    then show ?thesis
      using ChatDelete by (simp add: step_def on_chat_delete_def cleanupSession_fields)
  qed
  then show ?thesis using assms by auto
next
  case (WsOpened w)
  then have "sessions (step rt ev st) = sessions st"
    by (simp add: step_def onopen_def emit_def)
  then show ?thesis using assms by simp
next
  case (WsErrored w err)
  then have "sessions (step rt ev st) = sessions st"
    by (simp add: step_def onerror_def emit_def)
  then show ?thesis using assms by simp
next
  case (WsClosed w)
  then have "sessions (step rt ev st) = sessions st"
    by (simp add: step_def onclose_fields)
  then show ?thesis using assms by simp
next
  case (TimerFired i)
  show ?thesis
  proof (cases "i < length (timers st)")
    case False
    then show ?thesis using assms TimerFired by (simp add: step_def)
  next
    case True
    obtain ms c sid where t: "timers st ! i = (ms, c, sid)"
      by (cases "timers st ! i") auto
    let ?st1 = "st\<lparr>timers := take i (timers st) @ drop (Suc i) (timers st)\<rparr>"
    have st': "step rt ev st = connectWebSocket c sid ?st1"
      using TimerFired True t by (simp add: step_def)
    have "map_option status (sessions (connectWebSocket c sid ?st1) chatId) =
          map_option status (sessions st chatId)"
    proof (cases "sessions ?st1 c")
      case None
      then show ?thesis by (simp add: connectWebSocket_unregistered)
    next
      case (Some s0)
      then show ?thesis
        by (simp add: connectWebSocket_fields(1) [OF Some])
    qed
    then show ?thesis using assms st' by simp
  qed
next
  case (WsMessage w parsed)
  show ?thesis
  proof (cases "w < length (sockets st) \<and> \<not> ws_closed (sockets st ! w) \<and> parsed \<noteq> None")
    case False
    then have "step rt ev st = st"
      using WsMessage by (auto simp add: step_def onmessage_def)
    then show ?thesis using assms by simp
  next
    case True
    then obtain data where data: "parsed = Some data" by auto
    let ?c = "ws_chatId (sockets st ! w)"
    have st': "step rt ev st = snd (handleWebSocketMessage rt ?c data st)"
      using WsMessage True data by (simp add: step_def onmessage_def)
    show ?thesis
    proof (cases "sessions st ?c")
      case None
      then show ?thesis
        using assms st' by (simp add: handleWebSocketMessage_unregistered)
    next
      case (Some s0)
      note upd = handleWebSocketMessage_sessions [OF Some, of rt data]
      show ?thesis
      proof (cases "?c = chatId")
        case False
        then show ?thesis using assms st' upd by simp
      next
        case same: True
        then have "s0 = s" using Some assms(2) by simp
        then have "status s' = status_after data (status s)"
          using assms(3) st' upd same by auto
        then show ?thesis
          using status_after_cases [of data "status s"] assms(4) WsMessage True data same
          by (auto simp add: stream_event_def)
      qed
    qed
  qed
qed

lemma busy_state_sockets: "sockets busy_state = sockets idle_state"
  by (simp add: busy_state_def handleResearchQuery_fields(2) idle_state_sessions)

text \<open>
  Claim C1, as the claim states it, fails: with a query in flight, a
  \<^verbatim>\<open>research_error\<close> event takes the status from \<^verbatim>\<open>'processing'\<close> to
  \<^verbatim>\<open>'error'\<close>, which is neither of the two transitions of the claim.
\<close>

theorem status_error_counterexample:
  "map_option status (sessions busy_state ''c1'') = Some Processing
   \<and> map_option status
        (sessions (step plain_runtime (WsMessage 0 (Some error_frame)) busy_state) ''c1'') =
       Some Error"
  by (simp add: step_def onmessage_def busy_state_sessions busy_state_sockets idle_state_sockets
      handleWebSocketMessage_sessions status_after_def error_frame_def)

theorem status_transitions_witness:
  "admissible (WsMessage 0 (Some complete_frame)) busy_state
   \<and> sessions busy_state ''c1'' =
       Some \<lparr>sessionId = ''research-42'', websocket = Some 0, status = Processing\<rparr>
   \<and> sessions (step plain_runtime (WsMessage 0 (Some complete_frame)) busy_state) ''c1'' =
       Some \<lparr>sessionId = ''research-42'', websocket = Some 0, status = Idle\<rparr>
   \<and> status \<lparr>sessionId = ''research-42'', websocket = Some 0, status = Idle\<rparr> \<noteq>
       status \<lparr>sessionId = ''research-42'', websocket = Some 0, status = Processing\<rparr>
   \<and> stream_event (WsMessage 0 (Some complete_frame)) busy_state ''c1'' ''research_complete''"
  using status_transitions [of "WsMessage 0 (Some complete_frame)" busy_state "''c1''"
      "\<lparr>sessionId = ''research-42'', websocket = Some 0, status = Processing\<rparr>"
      plain_runtime "\<lparr>sessionId = ''research-42'', websocket = Some 0, status = Idle\<rparr>"]
  by (simp add: admissible_def step_def onmessage_def busy_state_sessions busy_state_sockets
      idle_state_sockets handleWebSocketMessage_sessions status_after_def complete_frame_def
      stream_event_def)

text \<open>
  Each of the changes the amended claim adds to those of the original one is taken:
  from \<^verbatim>\<open>'error'\<close> to \<^verbatim>\<open>'processing'\<close> by an admitted query,
  from \<^verbatim>\<open>'error'\<close> to \<^verbatim>\<open>'idle'\<close> by a completion, and from
  \<^verbatim>\<open>'idle'\<close> to \<^verbatim>\<open>'error'\<close> by an error reported while no query
  is in flight.
\<close>

lemma errored_state_sockets: "sockets errored_state = sockets idle_state"
  by (simp add: errored_state_def handleWebSocketMessage_frame busy_state_sockets)

lemma status_edges_taken:
  "map_option status (sessions errored_state ''c1'') = Some Error
   \<and> map_option status
        (sessions (step plain_runtime (MessageSend ''c1'' ''Try again'' (Resolved True))
           errored_state) ''c1'') = Some Processing
   \<and> map_option status
        (sessions (step plain_runtime (WsMessage 0 (Some complete_frame)) errored_state) ''c1'') =
       Some Idle
   \<and> map_option status (sessions idle_state ''c1'') = Some Idle
   \<and> map_option status
        (sessions (step plain_runtime (WsMessage 0 (Some error_frame)) idle_state) ''c1'') =
       Some Error"
  by (simp add: step_def on_message_send_def onmessage_def errored_state_sessions
      idle_state_sessions idle_state_sockets handleResearchQuery_fields(1)
      handleWebSocketMessage_sessions errored_state_sockets
      status_after_def complete_frame_def error_frame_def)

text \<open>
  The two-phase forms of the handlers add no change of a status: a query writes the
  status only when its request settles with a 2xx answer, and then to
  \<^verbatim>\<open>'processing'\<close>; the first phases and the deletion write none.
\<close>

lemma query_settle_status:
  assumes "sessions st c = Some s" and "sessions (query_settle chatId outcome st) c = Some s'"
    and "status s' \<noteq> status s"
  shows "status s' = Processing \<and> chatId = c \<and> outcome = Resolved True"
proof (cases "outcome = Resolved True")
  case True
  then show ?thesis
    using assms by (cases "chatId = c") (auto simp add: query_settle_def split: option.splits)
next
  case False
  then have "sessions (query_settle chatId outcome st) = sessions st"
    by (cases outcome) (auto simp add: query_settle_def query_failed_def emit_def)
  then show ?thesis using assms by simp
qed

lemma phases_leave_status:
  "sessions (snd (query_begin chatId message st)) = sessions st
   \<and> sessions (snd (cleanup_begin chatId st)) = sessions st
   \<and> sessions (cleanup_settle chatId outcome st) = (sessions st)(chatId := None)"
  by (auto simp add: query_begin_def cleanup_begin_def cleanup_settle_def emit_def Let_def
      ws_close_def split: option.splits fetch_outcome.splits)

section \<open>One listener per chat\<close>

lemma live_listeners_connect:
  assumes "sessions st chatId = Some session"
    and "set (live_listeners st chatId) \<subseteq> set_option (websocket session)"
  shows "live_listeners (connectWebSocket chatId sid st) chatId = [length (sockets st)]"
proof -
  let ?st' = "connectWebSocket chatId sid st"
  let ?n = "length (sockets st)"
  note f = connectWebSocket_fields [OF assms(1), of sid]
  have old: "filter (\<lambda>w. \<not> ws_closed (sockets ?st' ! w) \<and> ws_chatId (sockets ?st' ! w) = chatId)
               [0 ..< ?n] = []"
  proof (rule filter_False, intro ballI)
    fix w assume "w \<in> set [0 ..< ?n]"
    then have lt: "w < ?n" by simp
    note o = connectWebSocket_old_sockets [OF assms(1) lt, of sid]
    show "\<not> (\<not> ws_closed (sockets ?st' ! w) \<and> ws_chatId (sockets ?st' ! w) = chatId)"
    proof
      assume a: "\<not> ws_closed (sockets ?st' ! w) \<and> ws_chatId (sockets ?st' ! w) = chatId"
      then have "w \<in> set (live_listeners st chatId)"
        using o lt by (simp add: live_listeners_def)
      then have "websocket session = Some w" using assms(2) by (auto split: option.splits)
      then show False using a o by simp
    qed
  qed
  show ?thesis
    using old f by (simp add: live_listeners_def)
qed

text \<open>
  Claim C6. In every state the plugin reaches from its start, as long as the host
  creates chats under fresh identifiers, a chat has at most one open socket whose
  handlers deliver to it. A connect for a session that has a socket closes that socket
  first and then makes and stores the new one; afterwards the new socket is the only
  open one of the chat.
\<close>

theorem one_live_listener:
  "(admissible_run rt evs (new_plugin endpoint) \<longrightarrow>
      length (live_listeners (run rt evs (new_plugin endpoint)) chatId) \<le> 1)
   \<and> (sessions st chatId = Some session \<and> websocket session = Some w \<and> w < length (sockets st)
       \<and> set (live_listeners st chatId) \<subseteq> {w} \<longrightarrow>
        new_effects st (connectWebSocket chatId sid st) =
          [WsClose w,
           WsNew (length (sockets st))
             (replace_first ''http'' ''ws'' (apiEndpoint st) @ ''/ws/'' @ sid)]
        \<and> ws_closed (sockets (connectWebSocket chatId sid st) ! w)
        \<and> sessions (connectWebSocket chatId sid st) chatId =
            Some (session\<lparr>websocket := Some (length (sockets st))\<rparr>)
        \<and> live_listeners (connectWebSocket chatId sid st) chatId = [length (sockets st)])"
proof (intro conjI impI)
  assume "admissible_run rt evs (new_plugin endpoint)"
  then have "registry_inv (run rt evs (new_plugin endpoint))"
    using inv_new_plugin by (rule inv_run [rotated])
  then show "length (live_listeners (run rt evs (new_plugin endpoint)) chatId) \<le> 1"
    by (rule inv_one_listener)
next
  assume a: "sessions st chatId = Some session \<and> websocket session = Some w
    \<and> w < length (sockets st) \<and> set (live_listeners st chatId) \<subseteq> {w}"
  then show "new_effects st (connectWebSocket chatId sid st) =
          [WsClose w,
           WsNew (length (sockets st))
             (replace_first ''http'' ''ws'' (apiEndpoint st) @ ''/ws/'' @ sid)]"
    by (simp add: connectWebSocket_def Let_def ws_close_def emit_def new_effects_def)
  from a show "ws_closed (sockets (connectWebSocket chatId sid st) ! w)"
    by (simp add: connectWebSocket_old_sockets)
  from a show "sessions (connectWebSocket chatId sid st) chatId =
            Some (session\<lparr>websocket := Some (length (sockets st))\<rparr>)"
    by (simp add: connectWebSocket_fields(1))
  from a show "live_listeners (connectWebSocket chatId sid st) chatId = [length (sockets st)]"
    by (intro live_listeners_connect [of st chatId session]) auto
qed

lemma idle_state_live: "live_listeners idle_state ''c1'' = [0]"
  by (simp add: live_listeners_def idle_state_sockets)

theorem one_live_listener_witness:
  "admissible_run plain_runtime
     [CreateChat 42 ''c1'' (Resolved True), WsClosed 0, TimerFired 0] (new_plugin None)
   \<and> length (live_listeners
        (run plain_runtime [CreateChat 42 ''c1'' (Resolved True), WsClosed 0, TimerFired 0]
           (new_plugin None)) ''c1'') \<le> 1
   \<and> sessions idle_state ''c1'' =
       Some \<lparr>sessionId = ''research-42'', websocket = Some 0, status = Idle\<rparr>
   \<and> set (live_listeners idle_state ''c1'') \<subseteq> {0}
   \<and> new_effects idle_state (connectWebSocket ''c1'' ''research-42'' idle_state) =
       [WsClose 0, WsNew 1 ''ws://localhost:8000/ws/research-42'']
   \<and> live_listeners (connectWebSocket ''c1'' ''research-42'' idle_state) ''c1'' = [1]"
  using one_live_listener [of plain_runtime
      "[CreateChat 42 ''c1'' (Resolved True), WsClosed 0, TimerFired 0]" None "''c1''"
      idle_state "\<lparr>sessionId = ''research-42'', websocket = Some 0, status = Idle\<rparr>" 0
      "''research-42''"]
  by (simp add: admissible_def new_plugin_def idle_state_sessions idle_state_sockets
      idle_state_live idle_state_endpoint)

section \<open>Reconnection\<close>

text \<open>
  Claim C5. When a socket's close event is handled: if the chat is in the registry, one
  reconnect is scheduled with a delay of 5000 milliseconds, and when that timer fires
  the plugin connects again (a new socket is made if the chat is still registered); if
  the chat is not in the registry, nothing is scheduled, and a reconnect that fires for
  a chat that has been removed in the meantime does nothing.
\<close>

theorem reconnect_on_close:
  "(sessions st chatId \<noteq> None \<longrightarrow>
      onclose chatId sid st =
        st\<lparr>timers := timers st @ [(5000, chatId, sid)],
           trace := trace st @ [ConsoleLog (''WebSocket closed for session '' @ sid),
                                SetTimeout 5000 chatId sid]\<rparr>
      \<and> step rt (TimerFired (length (timers st))) (onclose chatId sid st) =
          connectWebSocket chatId sid
            (st\<lparr>trace := trace st @ [ConsoleLog (''WebSocket closed for session '' @ sid),
                                     SetTimeout 5000 chatId sid]\<rparr>)
      \<and> length (sockets (connectWebSocket chatId sid st)) = Suc (length (sockets st)))
   \<and> (sessions st chatId = None \<longrightarrow>
      onclose chatId sid st =
        st\<lparr>trace := trace st @ [ConsoleLog (''WebSocket closed for session '' @ sid)]\<rparr>
      \<and> connectWebSocket chatId sid st = st)"
  by (auto simp add: onclose_def emit_def Let_def step_def connectWebSocket_unregistered
      connectWebSocket_fields(2))

theorem reconnect_on_close_witness:
  "sessions idle_state ''c1'' \<noteq> None
   \<and> timers (onclose ''c1'' ''research-42'' idle_state) = [(5000, ''c1'', ''research-42'')]
   \<and> new_effects idle_state (onclose ''c1'' ''research-42'' idle_state) =
       [ConsoleLog ''WebSocket closed for session research-42'',
        SetTimeout 5000 ''c1'' ''research-42'']
   \<and> sessions idle_state ''c2'' = None
   \<and> timers (onclose ''c2'' ''research-43'' idle_state) = []
   \<and> new_effects idle_state (onclose ''c2'' ''research-43'' idle_state) =
       [ConsoleLog ''WebSocket closed for session research-43'']
   \<and> connectWebSocket ''c2'' ''research-43'' idle_state = idle_state"
  using reconnect_on_close [of idle_state "''c1''" "''research-42''" plain_runtime]
    reconnect_on_close [of idle_state "''c2''" "''research-43''" plain_runtime]
  by (simp add: idle_state_sessions idle_state_timers new_effects_def)

section \<open>Deletion of a session\<close>








text \<open>
  In the model, where the \<^verbatim>\<open>WebSocket\<close> constructor does not throw, a session
  the plugin has registered always holds a socket, so a deletion always has one to
  close.
\<close>

lemma registered_session_has_socket:
  assumes "admissible_run rt evs (new_plugin endpoint)"
    and "sessions (run rt evs (new_plugin endpoint)) chatId = Some session"
  shows "\<exists>w. websocket session = Some w \<and> w < length (sockets (run rt evs (new_plugin endpoint)))"
proof -
  have "registry_inv (run rt evs (new_plugin endpoint))"
    using inv_new_plugin assms(1) by (rule inv_run)
  then show ?thesis
    using assms(2) unfolding registry_inv_def by blast
qed

text \<open>
  While the \<^verbatim>\<open>DELETE\<close> request is in flight the chat is still registered. The
  close event of the socket the deletion has closed therefore schedules a reconnect;
  if its timer fires before the request settles, a new socket is opened, and it is
  still open when the entry of the chat has been removed.
\<close>

lemma close_event_during_delete:
  "timers (step plain_runtime (WsClosed 0) (snd (cleanup_begin ''c1'' idle_state))) =
     [(5000, ''c1'', ''research-42'')]
   \<and> live_listeners
        (step plain_runtime (TimerFired 0)
           (step plain_runtime (WsClosed 0) (snd (cleanup_begin ''c1'' idle_state)))) ''c1'' = [1]
   \<and> sessions
        (cleanup_settle ''c1'' (Resolved True)
           (step plain_runtime (TimerFired 0)
              (step plain_runtime (WsClosed 0) (snd (cleanup_begin ''c1'' idle_state))))) ''c1'' =
       None
   \<and> live_listeners
        (cleanup_settle ''c1'' (Resolved True)
           (step plain_runtime (TimerFired 0)
              (step plain_runtime (WsClosed 0) (snd (cleanup_begin ''c1'' idle_state))))) ''c1'' =
       [1]"
  by (simp add: cleanup_begin_def cleanup_settle_def step_def onclose_def connectWebSocket_def
      ws_close_def emit_def Let_def live_listeners_def idle_state_sessions idle_state_sockets
      idle_state_timers idle_state_endpoint)

section \<open>Malformed frames\<close>

text \<open>
  Claim C2. A frame that is not JSON, arriving on an open socket, is discarded:
  \<^verbatim>\<open>JSON.parse\<close> throws before the dispatcher is called, so the handler leaves
  the plugin as it found it (registry, sockets, timers and trace; the socket is still
  open). The plugin does not catch the \<^verbatim>\<open>SyntaxError\<close>: it rejects the promise
  of the \<^verbatim>\<open>async\<close> handler, which closes nothing. A valid frame on the same
  socket is given to the dispatcher for the socket's chat, and it is so after a
  malformed frame exactly as without it.
\<close>

theorem malformed_frame_discarded:
  assumes "w < length (sockets st)" and "\<not> ws_closed (sockets st ! w)"
  shows "onmessage rt (ws_chatId (sockets st ! w)) None st = (Inl SyntaxError, st)
   \<and> step rt (WsMessage w None) st = st
   \<and> step rt (WsMessage w (Some data)) st =
       snd (handleWebSocketMessage rt (ws_chatId (sockets st ! w)) data st)
   \<and> run rt [WsMessage w None, WsMessage w (Some data)] st =
       snd (handleWebSocketMessage rt (ws_chatId (sockets st ! w)) data st)"
  using assms by (simp add: onmessage_def step_def run_def)

text \<open>
  After a malformed frame, a \<^verbatim>\<open>research_complete\<close> frame on the same socket
  completes the research.
\<close>

theorem malformed_frame_discarded_witness:
  "0 < length (sockets busy_state) \<and> \<not> ws_closed (sockets busy_state ! 0)
   \<and> step plain_runtime (WsMessage 0 None) busy_state = busy_state
   \<and> map_option status
        (sessions (run plain_runtime [WsMessage 0 None, WsMessage 0 (Some complete_frame)]
           busy_state) ''c1'') = Some Idle
   \<and> new_effects busy_state
        (run plain_runtime [WsMessage 0 None, WsMessage 0 (Some complete_frame)] busy_state) =
       [Webui ''updateChatStatus'' [(''chatId'', JStr ''c1''), (''status'', JStr ''idle'')],
        Webui ''updateLastMessage''
          [(''chatId'', JStr ''c1''), (''content'', JStr ''Answer.''), (''done'', JBool True),
           (''metadata'', JObj [(''model'', JStr ''m''), (''provider'', JStr ''p''),
              (''process_time'', JStr ''1.23s'')])]]"
  using malformed_frame_discarded [of 0 busy_state plain_runtime complete_frame]
  by (simp add: busy_state_sockets idle_state_sockets busy_state_sessions
      handleWebSocketMessage_def case_research_complete_def complete_frame_def emit_def Let_def
      new_effects_def toFixed_def digits_small digits_large)

end
